theory Spec2Isabelle
  imports Main "HOL-Library.Word"
begin

unbundle bit_operations_syntax

section \<open>Go runtime: bytes, errors, channels\<close>

type_synonym byte = "8 word"
type_synonym bytes = "byte list"

text \<open>
  Three ways a Go function can fail to deliver its value: it returns a non-nil
  \<open>error\<close> (\<open>Err\<close>, with the message), it calls \<open>log.Fatal\<close>, which ends the process
  (\<open>Fatal\<close>, with the fixed head of the message), or the runtime panics (\<open>Panic\<close>). A send
  on a nil channel never completes (\<open>Blocked\<close>).
\<close>

datatype panic =
    IndexOutOfRange
  | NilDereference
  | CloseOfClosedChannel
  | CloseOfNilChannel
  | SendOnClosedChannel
  | SliceBoundsOutOfRange

datatype error = Err string | Fatal string | Panic panic | Blocked

text \<open>
  A channel-typed field: the nil reference, a live channel with the values sent on it so
  far (oldest first), or a channel on which \<open>close\<close> has run. The receiver is another
  goroutine: a send on a live channel is taken to complete, and how long it waits for the
  receiver is not part of the model.
\<close>

datatype 'a chan = Chan_nil | Chan_open "'a list" | Chan_closed

fun chan_send :: "'a chan \<Rightarrow> 'a \<Rightarrow> error + 'a chan" where
  "chan_send Chan_nil v = Inl Blocked"
| "chan_send (Chan_open q) v = Inr (Chan_open (q @ [v]))"
| "chan_send Chan_closed v = Inl (Panic SendOnClosedChannel)"

fun chan_close :: "'a chan \<Rightarrow> error + 'a chan" where
  "chan_close Chan_nil = Inl (Panic CloseOfNilChannel)"
| "chan_close (Chan_open q) = Inr Chan_closed"
| "chan_close Chan_closed = Inl (Panic CloseOfClosedChannel)"

subsection \<open>encoding/hex and fmt\<close>

datatype hex_error = InvalidByteError char | ErrLength

definition fromHexChar :: "char \<Rightarrow> byte option" where
  "fromHexChar c =
     (let n = of_char c :: nat in
      if 48 \<le> n \<and> n \<le> 57 then Some (of_nat (n - 48))
      else if 97 \<le> n \<and> n \<le> 102 then Some (of_nat (n - 97 + 10))
      else if 65 \<le> n \<and> n \<le> 70 then Some (of_nat (n - 65 + 10))
      else None)"

text \<open>\<open>hex.DecodeString\<close>: two digits per byte, the first the high nibble.\<close>

fun hex_DecodeString :: "string \<Rightarrow> hex_error + bytes" where
  "hex_DecodeString [] = Inr []"
| "hex_DecodeString [p] =
     (case fromHexChar p of None \<Rightarrow> Inl (InvalidByteError p) | Some a \<Rightarrow> Inl ErrLength)"
| "hex_DecodeString (p # q # rest) =
     (case fromHexChar p of
        None \<Rightarrow> Inl (InvalidByteError p)
      | Some a \<Rightarrow>
         (case fromHexChar q of
            None \<Rightarrow> Inl (InvalidByteError q)
          | Some b \<Rightarrow>
             (case hex_DecodeString rest of
                Inl e \<Rightarrow> Inl e
              | Inr bs \<Rightarrow> Inr ((push_bit 4 a OR b) # bs))))"

definition hexdigit :: "nat \<Rightarrow> char" where
  "hexdigit n = (if n < 10 then char_of (48 + n) else char_of (87 + n))"

text \<open>\<open>fmt.Sprintf("%x", b)\<close> for one \<open>uint8\<close>: lower case, no leading zero.\<close>

definition sprintf_x_uint8 :: "byte \<Rightarrow> string" where
  "sprintf_x_uint8 b =
     (if unat b < 16 then [hexdigit (unat b)]
      else [hexdigit (unat b div 16), hexdigit (unat b mod 16)])"

text \<open>\<open>fmt.Sprintf("%x", bs)\<close> for a byte slice: two lower-case digits per byte.\<close>

definition sprintf_x_bytes :: "bytes \<Rightarrow> string" where
  "sprintf_x_bytes bs = concat (map (\<lambda>b. [hexdigit (unat b div 16), hexdigit (unat b mod 16)]) bs)"

text \<open>\<open>bytes.Compare\<close>: lexicographic on unsigned bytes; \<open>-1\<close>, \<open>0\<close> or \<open>1\<close>.\<close>

fun bytes_Compare :: "bytes \<Rightarrow> bytes \<Rightarrow> int" where
  "bytes_Compare [] [] = 0"
| "bytes_Compare [] (y # ys) = -1"
| "bytes_Compare (x # xs) [] = 1"
| "bytes_Compare (x # xs) (y # ys) =
     (if x < y then -1 else if y < x then 1 else bytes_Compare xs ys)"

text \<open>\<open>string(b)\<close> for a \<open>uint8\<close>: the UTF-8 encoding of the code point \<open>b\<close>.\<close>

definition string_of_uint8 :: "byte \<Rightarrow> string" where
  "string_of_uint8 b =
     (if unat b < 128 then [char_of (unat b)]
      else [char_of (192 + unat b div 64), char_of (128 + unat b mod 64)])"

section \<open>Data model (\<open>ue/context/context.go\<close>)\<close>

text \<open>5GMM and 5GSM main states in the UE.\<close>

definition MM5G_NULL :: int where "MM5G_NULL = 0"
definition MM5G_DEREGISTERED :: int where "MM5G_DEREGISTERED = 1"
definition MM5G_REGISTERED_INITIATED :: int where "MM5G_REGISTERED_INITIATED = 2"
definition MM5G_REGISTERED :: int where "MM5G_REGISTERED = 3"
definition MM5G_SERVICE_REQ_INIT :: int where "MM5G_SERVICE_REQ_INIT = 4"
definition MM5G_DEREGISTERED_INIT :: int where "MM5G_DEREGISTERED_INIT = 5"

definition SM5G_PDU_SESSION_INACTIVE :: int where "SM5G_PDU_SESSION_INACTIVE = 6"
definition SM5G_PDU_SESSION_ACTIVE_PENDING :: int where "SM5G_PDU_SESSION_ACTIVE_PENDING = 7"
definition SM5G_PDU_SESSION_ACTIVE :: int where "SM5G_PDU_SESSION_ACTIVE = 8"

text \<open>
  \<open>models.AuthenticationSubscription\<close>, as far as \<open>SetAuthSubscription\<close> fills it:
  \<open>PermanentKey\<close>, \<open>Opc\<close> and \<open>Milenage.Op\<close> are pointers to one-string structs (\<open>None\<close> is
  nil), the other fields are strings held in the struct itself.
\<close>

record models_AuthenticationSubscription =
  PermanentKey :: "string option"
  Opc :: "string option"
  MilenageOp :: "string option"
  AuthenticationManagementField :: string
  SequenceNumber :: string
  AuthenticationMethod :: string

record models_Snssai =
  Sst :: "32 word"
  Sd :: string

record ScenarioMessage =
  StateChange :: int

record UEMessage =
  IsNas :: bool
  Nas :: bytes

record Amf =
  amfRegionId :: byte
  amfSetId :: "16 word"
  amfPointer :: byte
  amfUeId :: "64 word"
  amfMcc :: string
  amfMnc :: string

text \<open>
  The netlink handles (\<open>tun\<close>, \<open>routeTun\<close>, \<open>vrf\<close>) and the gNB-side session are
  references that may be nil; a live one is named by a string.
\<close>

record UEPDUSession =
  Id' :: byte
  GnbPduSession :: "string option"
  ueIP :: string
  ueGnbIP :: bytes
  tun :: "string option"
  routeTun :: "string option"
  vrf :: "string option"
  stopSignal :: "bool chan"
  Wait :: "bool chan"
  T3580Retries :: int
  StateSM :: int

record SECURITY =
  Supi :: string
  Msin :: string
  mcc :: string
  mnc :: string
  IntegrityAlg :: byte
  CipheringAlg :: byte
  Snn :: string
  KnasEnc :: bytes
  KnasInt :: bytes
  Kamf :: bytes
  AuthenticationSubs :: models_AuthenticationSubscription
  Suci :: bytes
  RoutingIndicator :: string
  Guti :: bytes

text \<open>
  \<open>PduSession\<close> is the array \<open>[16]*UEPDUSession\<close>: cells \<open>0\<close> to \<open>15\<close>, \<open>None\<close> for a
  nil pointer. A read at a computed index goes through the bounds check of
  \<open>array16_index\<close>, as it does in the Go runtime. The mutex \<open>lock\<close> has no effect on one
  thread of control and is left out, as are the NAS counters and the security capability,
  which no function below reads.
\<close>

record UEContext =
  id' :: byte
  UeSecurity :: SECURITY
  StateMM :: int
  gnbRx :: "UEMessage chan"
  gnbTx :: "UEMessage chan"
  PduSession :: "nat \<Rightarrow> UEPDUSession option"
  amfInfo :: Amf
  Dnn :: string
  Snssai :: models_Snssai
  TunnelEnabled :: bool
  scenarioChan :: "ScenarioMessage chan"

definition array16_index :: "(nat \<Rightarrow> 'a option) \<Rightarrow> nat \<Rightarrow> error + 'a option" where
  "array16_index a i = (if i < 16 then Inr (a i) else Inl (Panic IndexOutOfRange))"

subsection \<open>PDU session slots\<close>

text \<open>The zero value \<open>&UEPDUSession{}\<close>.\<close>

definition UEPDUSession_zero :: UEPDUSession where
  "UEPDUSession_zero =
     \<lparr>Id' = 0, GnbPduSession = None, ueIP = [], ueGnbIP = [], tun = None, routeTun = None,
      vrf = None, stopSignal = Chan_nil, Wait = Chan_nil, T3580Retries = 0, StateSM = 0\<rparr>"

text \<open>The search loop of \<open>CreatePDUSession\<close>: the first nil cell, or \<open>-1\<close>.\<close>

primrec first_nil :: "(nat \<Rightarrow> UEPDUSession option) \<Rightarrow> nat list \<Rightarrow> int" where
  "first_nil a [] = -1"
| "first_nil a (i # rest) = (if a i = None then int i else first_nil a rest)"

definition CreatePDUSession :: "UEContext \<Rightarrow> error + (UEPDUSession \<times> UEContext)" where
  "CreatePDUSession ue =
     (let pduSessionIndex = first_nil (PduSession ue) [0..<16] in
      if pduSessionIndex = -1
      then Inl (Err ''unable to create an additional PDU Session, we already created the max number of PDU Session'')
      else
        let pduSession = UEPDUSession_zero
              \<lparr>Id' := of_int (pduSessionIndex + 1), Wait := Chan_open []\<rparr>
        in Inr (pduSession,
                ue\<lparr>PduSession := (PduSession ue)(nat pduSessionIndex \<mapsto> pduSession)\<rparr>))"

text \<open>
  \<open>pduSessionid - 1\<close> is \<open>uint8\<close> arithmetic: it wraps. The \<open>||\<close> evaluates its right
  operand, and so indexes the array, only when \<open>pduSessionid > 15\<close> is false.
\<close>

definition GetPduSession :: "UEContext \<Rightarrow> byte \<Rightarrow> error + UEPDUSession" where
  "GetPduSession ue pduSessionid =
     (if pduSessionid > 15
      then Inl (Err (''Unable to find GnbPDUSession ID '' @ string_of_uint8 pduSessionid))
      else
        case array16_index (PduSession ue) (unat (pduSessionid - 1)) of
          Inl e \<Rightarrow> Inl e
        | Inr None \<Rightarrow> Inl (Err (''Unable to find GnbPDUSession ID '' @ string_of_uint8 pduSessionid))
        | Inr (Some pduSession) \<Rightarrow> Inr pduSession)"

definition DeletePduSession :: "UEContext \<Rightarrow> byte \<Rightarrow> error + UEContext" where
  "DeletePduSession ue pduSessionid =
     (if pduSessionid > 15
      then Inl (Err (''Unable to find GnbPDUSession ID '' @ string_of_uint8 pduSessionid))
      else
        case array16_index (PduSession ue) (unat (pduSessionid - 1)) of
          Inl e \<Rightarrow> Inl e
        | Inr None \<Rightarrow> Inl (Err (''Unable to find GnbPDUSession ID '' @ string_of_uint8 pduSessionid))
        | Inr (Some pduSession) \<Rightarrow>
            (case chan_close (Wait pduSession) of
               Inl e \<Rightarrow> Inl e
             | Inr w \<Rightarrow>
                (case (if stopSignal pduSession \<noteq> Chan_nil
                       then chan_send (stopSignal pduSession) True
                       else Inr (stopSignal pduSession)) of
                   Inl e \<Rightarrow> Inl e
                 | Inr s \<Rightarrow> Inr (ue\<lparr>PduSession := (PduSession ue)(unat (pduSessionid - 1) := None)\<rparr>))))"

subsection \<open>MM state setters\<close>

definition SetStateMM_NULL :: "UEContext \<Rightarrow> UEContext" where
  "SetStateMM_NULL ue = ue\<lparr>StateMM := MM5G_NULL\<rparr>"

text \<open>The other setters assign the state and then send it on \<open>scenarioChan\<close>.\<close>

definition set_and_publish :: "int \<Rightarrow> UEContext \<Rightarrow> error + UEContext" where
  "set_and_publish st ue =
     (let ue1 = ue\<lparr>StateMM := st\<rparr> in
      case chan_send (scenarioChan ue1) \<lparr>StateChange = StateMM ue1\<rparr> of
        Inl e \<Rightarrow> Inl e
      | Inr c \<Rightarrow> Inr (ue1\<lparr>scenarioChan := c\<rparr>))"

definition SetStateMM_REGISTERED_INITIATED :: "UEContext \<Rightarrow> error + UEContext" where
  "SetStateMM_REGISTERED_INITIATED = set_and_publish MM5G_REGISTERED_INITIATED"

definition SetStateMM_REGISTERED :: "UEContext \<Rightarrow> error + UEContext" where
  "SetStateMM_REGISTERED = set_and_publish MM5G_REGISTERED"

definition SetStateMM_DEREGISTERED :: "UEContext \<Rightarrow> error + UEContext" where
  "SetStateMM_DEREGISTERED = set_and_publish MM5G_DEREGISTERED"

subsection \<open>Terminate\<close>

datatype os_call = LinkSetDown string | LinkDel string | RouteDel string

text \<open>The body of the clean-up loop for one live session: the netlink calls it makes.\<close>

definition release_session :: "UEPDUSession \<Rightarrow> os_call list" where
  "release_session pduSession =
     (case tun pduSession of None \<Rightarrow> [] | Some ueTun \<Rightarrow> [LinkSetDown ueTun, LinkDel ueTun])
     @ (case routeTun pduSession of None \<Rightarrow> [] | Some ueRoute \<Rightarrow> [RouteDel ueRoute])
     @ (case vrf pduSession of None \<Rightarrow> [] | Some ueVrf \<Rightarrow> [LinkSetDown ueVrf, LinkDel ueVrf])"

primrec release_all :: "(nat \<Rightarrow> UEPDUSession option) \<Rightarrow> nat list \<Rightarrow> os_call list" where
  "release_all a [] = []"
| "release_all a (i # rest) =
     (case a i of None \<Rightarrow> [] | Some pduSession \<Rightarrow> release_session pduSession) @ release_all a rest"

text \<open>
  \<open>Terminate\<close> returns the context it leaves and the netlink calls it made, in order.
  The loop only reads the slots; no statement of \<open>Terminate\<close> assigns to \<open>ue.PduSession\<close>.
\<close>

definition Terminate :: "UEContext \<Rightarrow> error + (UEContext \<times> os_call list)" where
  "Terminate ue =
     (let ue1 = SetStateMM_NULL ue;
          calls = release_all (PduSession ue1) [0..<16]
      in case (if gnbRx ue1 \<noteq> Chan_nil
               then (case chan_close (gnbRx ue1) of
                       Inl e \<Rightarrow> Inl e
                     | Inr closed \<Rightarrow> Inr (ue1\<lparr>gnbRx := Chan_nil\<rparr>))
               else Inr ue1) of
           Inl e \<Rightarrow> Inl e
         | Inr ue2 \<Rightarrow>
            (case chan_close (scenarioChan ue2) of
               Inl e \<Rightarrow> Inl e
             | Inr c \<Rightarrow> Inr (ue2\<lparr>scenarioChan := c\<rparr>, calls)))"

subsection \<open>Routing indicator\<close>

text \<open>The padding loop: append \<open>'F'\<close> while fewer than four bytes.\<close>

function pad_F :: "string \<Rightarrow> string" where
  "pad_F routingIndicator =
     (if length routingIndicator < 4 then pad_F (routingIndicator @ ''F'') else routingIndicator)"
  by pat_completeness auto
termination
  by (relation "measure (\<lambda>r. 4 - length r)") auto

declare pad_F.simps [simp del]

text \<open>The swap loop: \<open>for i := 1; i < len; i += 2\<close> exchanges cells \<open>i-1\<close> and \<open>i\<close>.\<close>

function swap_pairs :: "nat \<Rightarrow> string \<Rightarrow> string" where
  "swap_pairs i routingIndicator =
     (if i < length routingIndicator
      then swap_pairs (i + 2)
             (routingIndicator[i - 1 := routingIndicator ! i, i := routingIndicator ! (i - 1)])
      else routingIndicator)"
  by pat_completeness auto
termination
  by (relation "measure (\<lambda>(i, r). length r - i)") auto

declare swap_pairs.simps [simp del]

definition GetRoutingIndicatorInOctets :: "UEContext \<Rightarrow> error + (bytes \<times> UEContext)" where
  "GetRoutingIndicatorInOctets ue =
     (let ue1 = (if length (RoutingIndicator (UeSecurity ue)) = 0
                 then ue\<lparr>UeSecurity := (UeSecurity ue)\<lparr>RoutingIndicator := ''0''\<rparr>\<rparr>
                 else ue)
      in if length (RoutingIndicator (UeSecurity ue1)) > 4
         then Inl (Fatal ''[UE][CONFIG] Routing indicator must be 4 digits maximum'')
         else
           case hex_DecodeString (swap_pairs 1 (pad_F (RoutingIndicator (UeSecurity ue1)))) of
             Inl e \<Rightarrow> Inl (Fatal ''[UE][CONFIG] Unable to encode routing indicator'')
           | Inr encodedRoutingIndicator \<Rightarrow> Inr (encodedRoutingIndicator, ue1))"

section \<open>5G-AKA in the UE\<close>

subsection \<open>The libraries the UE calls\<close>

text \<open>
  \<open>lib/milenage\<close>, \<open>lib/UeauCommon\<close> and \<open>internal/common/auth\<close> are taken as
  parameters: any functions of these types. \<open>F2345_Test\<close> and \<open>F1_Test\<close> write their
  results into slices the caller allocated; here they return what they write, in the order
  of their output arguments (\<open>RES, CK, IK, AK, AKstar\<close> and \<open>mac_a, mac_s\<close>).
  \<open>GetKDFValue\<close> takes the key, the \<open>FC\<close> value and its variadic arguments as a list.
  \<open>AlgorithmKeyDerivation\<close> writes through two pointers and its error is only logged, so
  it is a function from the old pair of NAS keys to the new pair.
\<close>

record crypto_lib =
  F2345_Test :: "bytes \<Rightarrow> bytes \<Rightarrow> bytes \<Rightarrow> bytes \<times> bytes \<times> bytes \<times> bytes \<times> bytes"
  F1_Test :: "bytes \<Rightarrow> bytes \<Rightarrow> bytes \<Rightarrow> bytes \<Rightarrow> bytes \<Rightarrow> bytes \<times> bytes"
  GetKDFValue :: "bytes \<Rightarrow> byte \<Rightarrow> bytes list \<Rightarrow> bytes"
  KDFLen :: "bytes \<Rightarrow> bytes"
  AlgorithmKeyDerivation :: "byte \<Rightarrow> bytes \<Rightarrow> bytes \<Rightarrow> byte \<Rightarrow> bytes \<Rightarrow> bytes \<times> bytes"

text \<open>
  Modelled from the spec: the \<open>FC\<close> constants of \<open>lib/UeauCommon\<close>, which is not among the
  sources; the values are the ones the specification gives (\<open>0x6B\<close> for RES*, \<open>0x6A\<close>,
  \<open>0x6C\<close>, \<open>0x6D\<close> for Kausf, Kseaf, Kamf).
\<close>

definition FC_FOR_RES_STAR_XRES_STAR_DERIVATION :: byte where
  "FC_FOR_RES_STAR_XRES_STAR_DERIVATION = 0x6B"
definition FC_FOR_KAUSF_DERIVATION :: byte where
  "FC_FOR_KAUSF_DERIVATION = 0x6A"
definition FC_FOR_KSEAF_DERIVATION :: byte where
  "FC_FOR_KSEAF_DERIVATION = 0x6C"
definition FC_FOR_KAMF_DERIVATION :: byte where
  "FC_FOR_KAMF_DERIVATION = 0x6D"

text \<open>
  A callee that is handed a slice can overwrite its cells and cannot change the length
  the caller sees: the buffer after the call has the callee's bytes in front and keeps
  its own length.
\<close>

definition copy_into :: "bytes \<Rightarrow> bytes \<Rightarrow> bytes" where
  "copy_into buf out = take (length buf) out @ drop (length out) buf"

definition make_bytes :: "nat \<Rightarrow> bytes" where
  "make_bytes n = replicate n 0"

text \<open>
  The statement \<open>milenage.F2345_Test(OPC, K, RAND, RES, CK, IK, AK, AKstar)\<close>: the five
  buffers after the call, from the five before it.
\<close>

definition call_F2345_Test ::
  "crypto_lib \<Rightarrow> bytes \<Rightarrow> bytes \<Rightarrow> bytes \<Rightarrow> bytes \<times> bytes \<times> bytes \<times> bytes \<times> bytes
     \<Rightarrow> bytes \<times> bytes \<times> bytes \<times> bytes \<times> bytes" where
  "call_F2345_Test c OPC K RAND bufs =
     (case bufs of (RES, CK, IK, AK, AKstar) \<Rightarrow>
        (case F2345_Test c OPC K RAND of (res, ck, ik, ak, akstar) \<Rightarrow>
           (copy_into RES res, copy_into CK ck, copy_into IK ik, copy_into AK ak,
            copy_into AKstar akstar)))"

text \<open>
  The statement \<open>milenage.F1_Test(OPC, K, RAND, sqn, amf, mac_a, mac_s)\<close>: the two
  buffers after the call.
\<close>

definition call_F1_Test ::
  "crypto_lib \<Rightarrow> bytes \<Rightarrow> bytes \<Rightarrow> bytes \<Rightarrow> bytes \<Rightarrow> bytes \<Rightarrow> bytes \<times> bytes
     \<Rightarrow> bytes \<times> bytes" where
  "call_F1_Test c OPC K RAND sqn amf bufs =
     (case bufs of (mac_a, mac_s) \<Rightarrow>
        (case F1_Test c OPC K RAND sqn amf of (ma, ms) \<Rightarrow>
           (copy_into mac_a ma, copy_into mac_s ms)))"

definition bytes_of_string :: "string \<Rightarrow> bytes" where
  "bytes_of_string s = map (\<lambda>c. of_nat (of_char c)) s"

text \<open>
  The loop \<open>for i := 0; i < len(src); i++ { dst[i] = src[i] ^ key[i] }\<close> with the
  runtime's index checks.
\<close>

function xor_loop :: "nat \<Rightarrow> bytes \<Rightarrow> bytes \<Rightarrow> bytes \<Rightarrow> error + bytes" where
  "xor_loop i dst src key =
     (if i < length src
      then (if i < length key \<and> i < length dst
            then xor_loop (Suc i) (dst[i := src ! i XOR key ! i]) src key
            else Inl (Panic IndexOutOfRange))
      else Inr dst)"
  by pat_completeness auto
termination
  by (relation "measure (\<lambda>(i, dst, src, key). length src - i)") auto

declare xor_loop.simps [simp del]

text \<open>
  \<open>deriveAUTN\<close>: the slice expressions \<open>autn[0:6]\<close>, \<open>autn[6:8]\<close>, \<open>autn[8:]\<close> panic on a
  slice shorter than 8 (the handler passes \<open>autn[:]\<close> of an array, so capacity and length
  agree).
\<close>

definition deriveAUTN :: "bytes \<Rightarrow> bytes \<Rightarrow> error + (bytes \<times> bytes \<times> bytes)" where
  "deriveAUTN autn ak =
     (if length autn < 8 then Inl (Panic SliceBoundsOutOfRange)
      else
        let SQNxorAK = take 6 autn;
            amf = take 2 (drop 6 autn);
            mac_a = drop 8 autn
        in case xor_loop 0 (make_bytes 6) SQNxorAK ak of
             Inl e \<Rightarrow> Inl e
           | Inr sqn \<Rightarrow> Inr (sqn, amf, mac_a))"

subsection \<open>Kamf and the NAS keys\<close>

definition is_digit :: "char \<Rightarrow> bool" where
  "is_digit c = (48 \<le> (of_char c :: nat) \<and> (of_char c :: nat) \<le> 57)"

text \<open>
  \<open>regexp "(?:imsi|supi)-([0-9]{5,15})"\<close> tried at the head of a string: the captured
  group, if the expression matches there.
\<close>

definition supi_match_here :: "string \<Rightarrow> string option" where
  "supi_match_here s =
     (if take 5 s = ''imsi-'' \<or> take 5 s = ''supi-''
      then (let ds = takeWhile is_digit (drop 5 s) in
            if 5 \<le> length ds then Some (take 15 ds) else None)
      else None)"

text \<open>\<open>FindStringSubmatch\<close>: the leftmost match; \<open>None\<close> is the nil result.\<close>

fun supi_FindStringSubmatch :: "string \<Rightarrow> string option" where
  "supi_FindStringSubmatch [] = None"
| "supi_FindStringSubmatch (c # cs) =
     (case supi_match_here (c # cs) of
        Some g \<Rightarrow> Some g
      | None \<Rightarrow> supi_FindStringSubmatch cs)"

text \<open>\<open>groups[1]\<close> on the nil result of the match is an index out of range.\<close>

definition DerivateKamf ::
  "crypto_lib \<Rightarrow> UEContext \<Rightarrow> bytes \<Rightarrow> string \<Rightarrow> bytes \<Rightarrow> bytes \<Rightarrow> error + UEContext" where
  "DerivateKamf c ue key snName SQN AK =
     (case xor_loop 0 (make_bytes 6) SQN AK of
        Inl e \<Rightarrow> Inl e
      | Inr SQNxorAK \<Rightarrow>
         (let P0 = bytes_of_string snName;
              P1 = SQNxorAK;
              Kausf = GetKDFValue c key FC_FOR_KAUSF_DERIVATION [P0, KDFLen c P0, P1, KDFLen c P1];
              Kseaf = GetKDFValue c Kausf FC_FOR_KSEAF_DERIVATION [P0, KDFLen c P0]
          in case supi_FindStringSubmatch (Supi (UeSecurity ue)) of
               None \<Rightarrow> Inl (Panic IndexOutOfRange)
             | Some group1 \<Rightarrow>
                (let P0' = bytes_of_string group1;
                     L0 = KDFLen c P0';
                     P1' = [0x00, 0x00];
                     L1 = KDFLen c P1'
                 in Inr (ue\<lparr>UeSecurity := (UeSecurity ue)
                           \<lparr>Kamf := GetKDFValue c Kseaf FC_FOR_KAMF_DERIVATION [P0', L0, P1', L1]\<rparr>\<rparr>))))"

definition DerivateAlgKey :: "crypto_lib \<Rightarrow> UEContext \<Rightarrow> UEContext" where
  "DerivateAlgKey c ue =
     (let sec = UeSecurity ue;
          (enc, int) = AlgorithmKeyDerivation c (CipheringAlg sec) (Kamf sec) (KnasEnc sec)
                         (IntegrityAlg sec) (KnasInt sec)
      in ue\<lparr>UeSecurity := sec\<lparr>KnasEnc := enc, KnasInt := int\<rparr>\<rparr>)"

subsection \<open>DeriveRESstarAndSetKey\<close>

text \<open>
  \<open>authSubs\<close> is a parameter of struct type: the function works on its own copy. The
  result is the pair the Go function returns and the context it leaves behind.
  The body of \<open>if !reflect.DeepEqual(mac_a, mac_aHn)\<close> is one \<open>log.Warn\<close> (its \<open>return\<close> is
  commented out), so both branches of the test continue with the same values.
\<close>

definition DeriveRESstarAndSetKey ::
  "crypto_lib \<Rightarrow> UEContext \<Rightarrow> models_AuthenticationSubscription \<Rightarrow> bytes \<Rightarrow> string \<Rightarrow> bytes
     \<Rightarrow> error + ((bytes \<times> string) \<times> UEContext)" where
  "DeriveRESstarAndSetKey c ue authSubs RAND snName AUTN =
    (case Opc authSubs of None \<Rightarrow> Inl (Panic NilDereference) | Some OpcValue \<Rightarrow>
    (case hex_DecodeString OpcValue of Inl err \<Rightarrow> Inl (Fatal ''[UE] OPC error'') | Inr OPC \<Rightarrow>
    (case PermanentKey authSubs of None \<Rightarrow> Inl (Panic NilDereference) | Some PermanentKeyValue \<Rightarrow>
    (case hex_DecodeString PermanentKeyValue of Inl err \<Rightarrow> Inl (Fatal ''[UE] K error'') | Inr K \<Rightarrow>
    (case hex_DecodeString (SequenceNumber authSubs) of
       Inl err \<Rightarrow> Inl (Fatal ''[UE] sqn error'') | Inr sqnUe \<Rightarrow>
    (case hex_DecodeString (AuthenticationManagementField authSubs) of
       Inl err \<Rightarrow> Inl (Fatal ''[UE] AuthenticationManagementField error'') | Inr AMF \<Rightarrow>
      (let (RES, CK, IK, AK, AKstar) =
             call_F2345_Test c OPC K RAND
               (make_bytes 8, make_bytes 16, make_bytes 16, make_bytes 6, make_bytes 6)
       in (case deriveAUTN AUTN AK of Inl e \<Rightarrow> Inl e | Inr (sqnHn, amfHn, mac_aHn) \<Rightarrow>
       (let (mac_a, mac_s) = call_F1_Test c OPC K RAND sqnHn AMF (make_bytes 8, make_bytes 8);
            warned = (if mac_a \<noteq> mac_aHn then () else ())
        in if bytes_Compare sqnUe sqnHn > 0
           then
             (let (RES', CK', IK', AK', AKstar') =
                    call_F2345_Test c OPC K RAND (RES, CK, IK, AK, AKstar);
                  amfSynch = [0x00, 0x00];
                  (mac_a', mac_s') = call_F1_Test c OPC K RAND sqnUe amfSynch (mac_a, mac_s)
              in (case xor_loop 0 (make_bytes 6) sqnUe AKstar' of
                    Inl e \<Rightarrow> Inl e
                  | Inr sqnUeXorAK \<Rightarrow>
                     (let failureParam = sqnUeXorAK @ mac_s'
                      in Inr ((failureParam, ''SQN failure''), ue))))
           else
             (let authSubs' = authSubs\<lparr>SequenceNumber := sprintf_x_bytes sqnHn\<rparr>;
                  key = CK @ IK;
                  FC = FC_FOR_RES_STAR_XRES_STAR_DERIVATION;
                  P0 = bytes_of_string snName;
                  P1 = RAND;
                  P2 = RES
              in (case DerivateKamf c ue key snName sqnHn AK of
                    Inl e \<Rightarrow> Inl e
                  | Inr ue1 \<Rightarrow>
                     (let ue2 = DerivateAlgKey c ue1;
                          kdfVal_for_resStar =
                            GetKDFValue c key FC [P0, KDFLen c P0, P1, KDFLen c P1, P2, KDFLen c P2]
                      in Inr ((drop (length kdfVal_for_resStar div 2) kdfVal_for_resStar,
                               ''successful''), ue2)))))))))))))"

section \<open>NAS handlers\<close>

text \<open>
  The message builders of \<open>mm_5gs\<close> are parameters as well. \<open>RegistrationComplete\<close>
  returns the encoded message or an error.
\<close>

record nas_lib =
  AuthenticationFailure :: "string \<Rightarrow> string \<Rightarrow> bytes \<Rightarrow> bytes"
  AuthenticationResponse :: "bytes \<Rightarrow> string \<Rightarrow> bytes"
  RegistrationComplete :: "UEContext \<Rightarrow> string + bytes"

text \<open>
  Modelled from the spec: \<open>sender.SendToGnb\<close> of the UE, which is not among the sources.
  The sender observes the UE's queue to the gNB; a nil queue drops the message with a
  warning, otherwise the message is sent on it. The gNB's \<open>SendToUe\<close>, which is among the
  sources, has this shape.
\<close>

definition SendToGnb :: "UEContext \<Rightarrow> bytes \<Rightarrow> error + UEContext" where
  "SendToGnb ue message =
     (if gnbRx ue = Chan_nil then Inr ue
      else case chan_send (gnbRx ue) \<lparr>IsNas = True, Nas = message\<rparr> of
             Inl e \<Rightarrow> Inl e
           | Inr q \<Rightarrow> Inr (ue\<lparr>gnbRx := q\<rparr>))"

text \<open>What the handler reads from the Authentication Request, by its two accessors; both
  values are \<open>[16]uint8\<close>.\<close>

record AuthenticationRequest =
  GetRANDValue :: bytes
  GetAUTN :: bytes

definition HandlerAuthenticationRequest ::
  "crypto_lib \<Rightarrow> nas_lib \<Rightarrow> UEContext \<Rightarrow> AuthenticationRequest \<Rightarrow> error + UEContext" where
  "HandlerAuthenticationRequest c n ue message =
     (let rand = GetRANDValue message;
          autn = GetAUTN message
      in case DeriveRESstarAndSetKey c ue (AuthenticationSubs (UeSecurity ue)) rand
                (Snn (UeSecurity ue)) autn of
           Inl e \<Rightarrow> Inl e
         | Inr ((paramAutn, check), ue1) \<Rightarrow>
            (case (if check = ''MAC failure''
                   then Inr (AuthenticationFailure n ''MAC failure'' [] paramAutn, ue1)
                   else if check = ''SQN failure''
                   then Inr (AuthenticationFailure n ''SQN failure'' [] paramAutn, ue1)
                   else if check = ''successful''
                   then (case SetStateMM_REGISTERED_INITIATED ue1 of
                           Inl e \<Rightarrow> Inl e
                         | Inr ue2 \<Rightarrow> Inr (AuthenticationResponse n paramAutn [], ue2))
                   else Inr ([], ue1)) of
               Inl e \<Rightarrow> Inl e
             | Inr (authenticationResponse, ue3) \<Rightarrow> SendToGnb ue3 authenticationResponse))"

text \<open>
  What the handler reads from the Registration Accept. \<open>AllowedNSSAI\<close> is a pointer
  to an optional element (\<open>None\<close> is nil); \<open>GetSNSSAIValue\<close> gives its bytes.
\<close>

record RegistrationAccept =
  GetAMFRegionID :: byte
  GetAMFPointer :: byte
  GetAMFSetID :: "16 word"
  GetTMSI5G :: bytes
  AllowedNSSAI :: "bytes option"

text \<open>
  \<open>fmt.Sprintf("0%x0%x0%x", a, b, c)\<close>: a literal \<open>0\<close> before each number, and each
  number in as many hexadecimal digits as it needs.
\<close>

definition sprintf_0x0x0x :: "byte \<Rightarrow> byte \<Rightarrow> byte \<Rightarrow> string" where
  "sprintf_0x0x0x a b c =
     ''0'' @ sprintf_x_uint8 a @ ''0'' @ sprintf_x_uint8 b @ ''0'' @ sprintf_x_uint8 c"

text \<open>The final \<open>time.Sleep\<close> changes no state and is left out.\<close>

definition HandlerRegistrationAccept ::
  "nas_lib \<Rightarrow> UEContext \<Rightarrow> RegistrationAccept \<Rightarrow> error + UEContext" where
  "HandlerRegistrationAccept n ue message =
     (case SetStateMM_REGISTERED ue of
        Inl e \<Rightarrow> Inl e
      | Inr ue1 \<Rightarrow>
         (let ue2 = ue1\<lparr>amfInfo := (amfInfo ue1)\<lparr>amfRegionId := GetAMFRegionID message\<rparr>\<rparr>;
              ue3 = ue2\<lparr>amfInfo := (amfInfo ue2)\<lparr>amfPointer := GetAMFPointer message\<rparr>\<rparr>;
              ue4 = ue3\<lparr>amfInfo := (amfInfo ue3)\<lparr>amfSetId := GetAMFSetID message\<rparr>\<rparr>;
              ue5 = ue4\<lparr>UeSecurity := (UeSecurity ue4)\<lparr>Guti := GetTMSI5G message\<rparr>\<rparr>
          in case (if Sst (Snssai ue5) = 0
                   then (case AllowedNSSAI message of
                           None \<Rightarrow> Inl (Panic NilDereference)
                         | Some snssai \<Rightarrow>
                            if length snssai < 5 then Inl (Panic IndexOutOfRange)
                            else Inr (ue5\<lparr>Snssai := (Snssai ue5)
                                       \<lparr>Sst := ucast (snssai ! 1),
                                        Sd := sprintf_0x0x0x (snssai ! 2) (snssai ! 3) (snssai ! 4)\<rparr>\<rparr>))
                   else Inr ue5) of
               Inl e \<Rightarrow> Inl e
             | Inr ue6 \<Rightarrow>
                (case RegistrationComplete n ue6 of
                   Inl err \<Rightarrow> Inl (Fatal ''[UE][NAS] Error sending Registration Complete'')
                 | Inr registrationComplete \<Rightarrow> SendToGnb ue6 registrationComplete)))"

section \<open>Concrete inputs\<close>

text \<open>
  Modelled from the spec: the output sizes of the libraries that are not among the sources
  (\<open>lib/milenage\<close>, \<open>lib/UeauCommon\<close>, \<open>internal/common/auth\<close>): 8 bytes for RES and the
  MACs, 16 for CK and IK, 6 for AK and AK*, 16 for each NAS key, and 32 for the KDF, which
  the specification gives as HMAC-SHA-256 (Kamf, 32 bytes, is a KDF output as it is). The
  functions of this instance are not Milenage or HMAC; they only have these sizes and
  depend on their arguments. They serve to run the model on concrete inputs; the general
  theorems below hold for every instance.
\<close>

definition sample_crypto :: crypto_lib where
  "sample_crypto =
     \<lparr>F2345_Test = (\<lambda>opc k rand.
         (map2 (XOR) (take 8 k) (take 8 rand),
          map2 (XOR) opc rand,
          map2 (XOR) k rand,
          map2 (XOR) (take 6 opc) (take 6 rand),
          map2 (XOR) (take 6 opc) (take 6 (drop 6 rand)))),
      F1_Test = (\<lambda>opc k rand sqn amf.
         (map2 (XOR) (take 8 k) (sqn @ amf), map2 (XOR) (take 8 opc) (sqn @ amf))),
      GetKDFValue = (\<lambda>key fc ps.
         map (\<lambda>i. (key @ [fc]) ! (i mod (length key + 1)) XOR (foldr (+) (concat ps) fc + of_nat i))
           [0..<32]),
      KDFLen = (\<lambda>p. [of_nat (length p div 256), of_nat (length p mod 256)]),
      AlgorithmKeyDerivation = (\<lambda>ca kamf enc ia int. (take 16 kamf, take 16 (drop 16 kamf)))\<rparr>"

definition sample_nas :: nas_lib where
  "sample_nas =
     \<lparr>AuthenticationFailure = (\<lambda>cause eap param. 0x59 # bytes_of_string cause @ param),
      AuthenticationResponse = (\<lambda>res eap. 0x57 # res),
      RegistrationComplete = (\<lambda>ue. Inr [0x43])\<rparr>"

text \<open>
  A UE as \<open>NewRanUeContext\<close> and \<open>SetAmfMccAndMnc\<close> leave it, with the subscription of
  the specification's first scenario, in state DEREGISTERED with live channels.
\<close>

definition ue_sample :: UEContext where
  "ue_sample =
     \<lparr>id' = 1,
      UeSecurity =
        \<lparr>Supi = ''imsi-99970000000001'', Msin = ''0000000001'', mcc = ''999'', mnc = ''70'',
         IntegrityAlg = 2, CipheringAlg = 0, Snn = ''5G:mnc070.mcc999.3gppnetwork.org'',
         KnasEnc = replicate 16 0, KnasInt = replicate 16 0, Kamf = [],
         AuthenticationSubs =
           \<lparr>PermanentKey = Some ''8baf473f2f8fd09487cccbd7097c6862'',
            Opc = Some ''8e27b6af0e692e750f32667a3b14605d'',
            MilenageOp = Some [],
            AuthenticationManagementField = ''8000'',
            SequenceNumber = ''000000000000'',
            AuthenticationMethod = ''5G_AKA''\<rparr>,
         Suci = [], RoutingIndicator = ''100'', Guti = [0, 0, 0, 0]\<rparr>,
      StateMM = MM5G_DEREGISTERED,
      gnbRx = Chan_open [], gnbTx = Chan_open [],
      PduSession = (\<lambda>i. None),
      amfInfo = \<lparr>amfRegionId = 0, amfSetId = 0, amfPointer = 0, amfUeId = 0,
                 amfMcc = ''999'', amfMnc = ''70''\<rparr>,
      Dnn = ''internet'', Snssai = \<lparr>Sst = 0, Sd = []\<rparr>, TunnelEnabled = False,
      scenarioChan = Chan_open []\<rparr>"

definition ue_no_routing_indicator :: UEContext where
  "ue_no_routing_indicator = ue_sample\<lparr>UeSecurity := (UeSecurity ue_sample)\<lparr>RoutingIndicator := []\<rparr>\<rparr>"

definition ue_long_routing_indicator :: UEContext where
  "ue_long_routing_indicator =
     ue_sample\<lparr>UeSecurity := (UeSecurity ue_sample)\<lparr>RoutingIndicator := ''12345''\<rparr>\<rparr>"

text \<open>A registered UE with one established session in slot 0.\<close>

definition session1 :: UEPDUSession where
  "session1 =
     UEPDUSession_zero\<lparr>Id' := 1, ueIP := ''10.45.0.2'', tun := Some ''uetun1'',
       routeTun := Some ''route1'', Wait := Chan_open [], StateSM := SM5G_PDU_SESSION_ACTIVE\<rparr>"

definition ue_established :: UEContext where
  "ue_established =
     ue_sample\<lparr>StateMM := MM5G_REGISTERED, PduSession := (PduSession ue_sample)(0 \<mapsto> session1)\<rparr>"

definition ue_terminated :: UEContext where
  "ue_terminated =
     ue_established\<lparr>StateMM := MM5G_NULL, gnbRx := Chan_nil, scenarioChan := Chan_closed\<rparr>"

text \<open>A UE whose slots 0 to 14 hold sessions; slot 15 is the only free one.\<close>

definition ue_15_sessions :: UEContext where
  "ue_15_sessions =
     ue_sample\<lparr>PduSession :=
       (\<lambda>i. if i < 15 then Some (UEPDUSession_zero\<lparr>Id' := of_nat (i + 1), Wait := Chan_open []\<rparr>)
            else None)\<rparr>"

text \<open>
  The decoded \<open>OPc\<close> and \<open>K\<close> of \<open>ue_sample\<close>, the RAND of the specification's first
  scenario, and an AUTN made for it with \<open>sample_crypto\<close>: SQN \<open>000000000001\<close>, AMF
  \<open>8000\<close>. The second AUTN is the first with the last byte of the MAC flipped.
\<close>

definition OPC_sample :: bytes where
  "OPC_sample = [0x8e, 0x27, 0xb6, 0xaf, 0x0e, 0x69, 0x2e, 0x75,
                 0x0f, 0x32, 0x66, 0x7a, 0x3b, 0x14, 0x60, 0x5d]"

definition K_sample :: bytes where
  "K_sample = [0x8b, 0xaf, 0x47, 0x3f, 0x2f, 0x8f, 0xd0, 0x94,
               0x87, 0xcc, 0xcb, 0xd7, 0x09, 0x7c, 0x68, 0x62]"

definition rand_sample :: bytes where
  "rand_sample = [0x00, 0x11, 0x22, 0x33, 0x44, 0x55, 0x66, 0x77,
                  0x88, 0x99, 0xaa, 0xbb, 0xcc, 0xdd, 0xee, 0xff]"

definition autn_sqn1 :: bytes where
  "autn_sqn1 = [0x8e, 0x36, 0x94, 0x9c, 0x4a, 0x3d, 0x80, 0x00,
                0x8b, 0xaf, 0x47, 0x3f, 0x2f, 0x8e, 0x50, 0x94]"

definition autn_sqn1_bad_mac :: bytes where
  "autn_sqn1_bad_mac = [0x8e, 0x36, 0x94, 0x9c, 0x4a, 0x3d, 0x80, 0x00,
                        0x8b, 0xaf, 0x47, 0x3f, 0x2f, 0x8e, 0x50, 0x6b]"

text \<open>What the sample library computes for these inputs.\<close>

definition RES_sample :: bytes where
  "RES_sample = [139, 190, 101, 12, 107, 218, 182, 227]"

definition CK_sample :: bytes where
  "CK_sample = [142, 54, 148, 156, 74, 60, 72, 2, 135, 171, 204, 193, 247, 201, 142, 162]"

definition IK_sample :: bytes where
  "IK_sample = [139, 190, 101, 12, 107, 218, 182, 227, 15, 85, 97, 108, 197, 161, 134, 157]"

definition AK_sample :: bytes where
  "AK_sample = [142, 54, 148, 156, 74, 60]"

definition AKstar_sample :: bytes where
  "AKstar_sample = [232, 80, 62, 54, 164, 210]"

definition kdf_sample :: bytes where
  "kdf_sample = [124, 197, 96, 105, 188, 203, 176, 251, 125, 80, 48, 60, 9, 54, 142, 163,
                 137, 189, 97, 9, 109, 221, 190, 234, 5, 94, 109, 97, 203, 174, 150, 140]"

definition param_sample :: bytes where
  "param_sample = [137, 189, 97, 9, 109, 221, 190, 234, 5, 94, 109, 97, 203, 174, 150, 140]"

definition kamf_sample :: bytes where
  "kamf_sample = [79, 240, 87, 92, 143, 230, 143, 198, 78, 101, 7, 9, 58, 11, 65, 110,
                  90, 104, 182, 220, 190, 48, 97, 55, 214, 139, 186, 180, 24, 115, 89, 65]"

definition ue_after_aka :: UEContext where
  "ue_after_aka =
     ue_sample\<lparr>UeSecurity := (UeSecurity ue_sample)
       \<lparr>Kamf := kamf_sample,
        KnasEnc := [79, 240, 87, 92, 143, 230, 143, 198, 78, 101, 7, 9, 58, 11, 65, 110],
        KnasInt := [90, 104, 182, 220, 190, 48, 97, 55, 214, 139, 186, 180, 24, 115, 89, 65]\<rparr>\<rparr>"

definition request_sqn1 :: AuthenticationRequest where
  "request_sqn1 = \<lparr>GetRANDValue = rand_sample, GetAUTN = autn_sqn1\<rparr>"

definition request_sqn1_bad_mac :: AuthenticationRequest where
  "request_sqn1_bad_mac = \<lparr>GetRANDValue = rand_sample, GetAUTN = autn_sqn1_bad_mac\<rparr>"

text \<open>The same UE with the stored sequence number ahead of the network's.\<close>

definition ue_sqn2 :: UEContext where
  "ue_sqn2 =
     ue_sample\<lparr>UeSecurity := (UeSecurity ue_sample)
       \<lparr>AuthenticationSubs :=
          (AuthenticationSubs (UeSecurity ue_sample))\<lparr>SequenceNumber := ''000000000002''\<rparr>\<rparr>\<rparr>"

text \<open>
  Two Registration Accepts whose Allowed NSSAI carries SST 1; the SD bytes are
  \<open>01 02 03\<close> in the first and \<open>10 20 30\<close> in the second.
\<close>

definition accept_sd_010203 :: RegistrationAccept where
  "accept_sd_010203 =
     \<lparr>GetAMFRegionID = 0xca, GetAMFPointer = 0, GetAMFSetID = 0x3f8, GetTMSI5G = [1, 2, 3, 4],
      AllowedNSSAI = Some [0x04, 0x01, 0x01, 0x02, 0x03]\<rparr>"

definition accept_sd_102030 :: RegistrationAccept where
  "accept_sd_102030 =
     \<lparr>GetAMFRegionID = 0xca, GetAMFPointer = 0, GetAMFSetID = 0x3f8, GetTMSI5G = [1, 2, 3, 4],
      AllowedNSSAI = Some [0x04, 0x01, 0x10, 0x20, 0x30]\<rparr>"

section \<open>PDU session slots\<close>

text \<open>
  For ids 1 to 15 the lookup is the slot \<open>id - 1\<close>: the session it holds, or the error.
\<close>

lemma GetPduSession_1_to_15:
  assumes "1 \<le> pduSessionid" and "pduSessionid \<le> 15"
  shows "GetPduSession ue pduSessionid =
           (case PduSession ue (unat pduSessionid - 1) of
              Some s \<Rightarrow> Inr s
            | None \<Rightarrow> Inl (Err (''Unable to find GnbPDUSession ID '' @ string_of_uint8 pduSessionid)))"
proof -
  from assms(1) have nz: "pduSessionid \<noteq> 0" by auto
  have u: "unat (pduSessionid - 1) = unat pduSessionid - 1"
    using nz by (rule unat_minus_one)
  from assms(2) have "unat pduSessionid \<le> 15" by (simp add: word_le_nat_alt)
  with u have lt: "unat (pduSessionid - 1) < 16" by simp
  from assms(2) have ng: "\<not> pduSessionid > 15" by simp
  show ?thesis
    using lt ng u by (simp add: GetPduSession_def array16_index_def split: option.splits)
qed

lemma first_nil_ue_15_sessions: "first_nil (PduSession ue_15_sessions) [0..<16] = 15"
  by (simp add: ue_15_sessions_def upt_rec)

text \<open>
  C9. The claim: for every id in 1..16 \<open>GetPduSession\<close> returns the session of slot
  \<open>id - 1\<close> when there is one, and an id that \<open>CreatePDUSession\<close> assigns can always be
  retrieved. The code at the id 16: when slot 15 is the first free one,
  \<open>CreatePDUSession\<close> stores the new session there with \<open>Id = 16\<close>, and
  \<open>GetPduSession\<close> of that id returns the not-found error, because its guard
  \<open>pduSessionid > 15\<close> rejects 16 before the slot is read.
\<close>

theorem CreatePDUSession_id_16_not_found:
  assumes "first_nil (PduSession ue) [0..<16] = 15"
  shows "\<exists>s ue'. CreatePDUSession ue = Inr (s, ue') \<and> Id' s = 16 \<and> PduSession ue' 15 = Some s
           \<and> GetPduSession ue' (Id' s)
               = Inl (Err (''Unable to find GnbPDUSession ID '' @ string_of_uint8 16))"
  using assms by (simp add: CreatePDUSession_def GetPduSession_def Let_def)

theorem CreatePDUSession_id_16_not_found_witness:
  "first_nil (PduSession ue_15_sessions) [0..<16] = 15
   \<and> (\<exists>s ue'. CreatePDUSession ue_15_sessions = Inr (s, ue') \<and> Id' s = 16
         \<and> PduSession ue' 15 = Some s
         \<and> GetPduSession ue' (Id' s)
             = Inl (Err (''Unable to find GnbPDUSession ID '' @ string_of_uint8 16)))"
  using CreatePDUSession_id_16_not_found [OF first_nil_ue_15_sessions] first_nil_ue_15_sessions
  by simp

text \<open>
  C10. \<open>GetPduSession\<close> and \<open>DeletePduSession\<close> are not total on their \<open>uint8\<close>
  argument: for the id 0 the guard \<open>pduSessionid > 15\<close> does not reject the call, the
  index \<open>pduSessionid - 1\<close> wraps to 255, and the read of the 16-cell array panics with an
  index out of range. This holds for every UE context.
\<close>

theorem PduSession_id_0_panics:
  "\<not> (0 :: byte) > 15
   \<and> unat ((0 :: byte) - 1) = 255
   \<and> GetPduSession ue 0 = Inl (Panic IndexOutOfRange)
   \<and> DeletePduSession ue 0 = Inl (Panic IndexOutOfRange)"
  by (simp add: GetPduSession_def DeletePduSession_def array16_index_def
        unsigned_minus_1_eq_mask mask_eq_exp_minus_1)

section \<open>Terminate\<close>

lemma Terminate_ue_established:
  "Terminate ue_established
     = Inr (ue_terminated, [LinkSetDown ''uetun1'', LinkDel ''uetun1'', RouteDel ''route1''])"
  by (simp add: Terminate_def SetStateMM_NULL_def Let_def ue_terminated_def ue_established_def
        ue_sample_def upt_rec release_session_def session1_def UEPDUSession_zero_def)

lemma slot_0_ue_terminated: "PduSession ue_terminated 0 = Some session1"
  by (simp add: ue_terminated_def ue_established_def)

text \<open>
  C2, as the code has it. When \<open>Terminate\<close> returns, the MM state is NULL,
  \<open>scenarioChan\<close> is closed and \<open>gnbRx\<close> is nil; the 16 session slots are what they were
  before the call. \<open>Terminate\<close> releases the TUN link, route and VRF of each live session
  and does not clear any slot.
\<close>

theorem Terminate_returns:
  assumes "Terminate ue = Inr (ue', calls)"
  shows "StateMM ue' = MM5G_NULL \<and> scenarioChan ue' = Chan_closed \<and> gnbRx ue' = Chan_nil
         \<and> PduSession ue' = PduSession ue
         \<and> calls = release_all (PduSession ue) [0..<16]"
  using assms
  by (cases "gnbRx ue"; cases "scenarioChan ue")
     (auto simp: Terminate_def SetStateMM_NULL_def Let_def)

theorem Terminate_returns_witness:
  "Terminate ue_established
     = Inr (ue_terminated, [LinkSetDown ''uetun1'', LinkDel ''uetun1'', RouteDel ''route1''])
   \<and> StateMM ue_terminated = MM5G_NULL \<and> scenarioChan ue_terminated = Chan_closed
   \<and> gnbRx ue_terminated = Chan_nil
   \<and> PduSession ue_terminated = PduSession ue_established"
  using Terminate_returns [OF Terminate_ue_established] Terminate_ue_established by simp

text \<open>
  The claim C2 as stated, that every slot is empty after \<open>Terminate\<close>, fails on a UE with
  an established session: the call returns and slot 0 still holds the session.
\<close>

theorem Terminate_clears_slots_counterexample:
  "Terminate ue_established
     = Inr (ue_terminated, [LinkSetDown ''uetun1'', LinkDel ''uetun1'', RouteDel ''route1''])
   \<and> PduSession ue_terminated 0 \<noteq> None"
  using Terminate_ue_established slot_0_ue_terminated by simp

text \<open>
  C3. The claim: a second \<open>Terminate\<close> on the same context does not panic and closes no
  channel twice. The code: the close of \<open>gnbRx\<close> is guarded by the nil test and the field
  is set to nil, but \<open>close(ue.scenarioChan)\<close> has no guard, so whenever a first call has
  returned, a second call panics with a close of a closed channel.
\<close>

theorem Terminate_twice_panics:
  assumes "Terminate ue = Inr (ue', calls)"
  shows "Terminate ue' = Inl (Panic CloseOfClosedChannel)"
  using assms
  by (cases "gnbRx ue"; cases "scenarioChan ue")
     (auto simp: Terminate_def SetStateMM_NULL_def Let_def)

theorem Terminate_twice_panics_witness:
  "Terminate ue_established
     = Inr (ue_terminated, [LinkSetDown ''uetun1'', LinkDel ''uetun1'', RouteDel ''route1''])
   \<and> Terminate ue_terminated = Inl (Panic CloseOfClosedChannel)"
  using Terminate_twice_panics [OF Terminate_ue_established] Terminate_ue_established by simp

section \<open>Routing indicator\<close>

lemma GetRoutingIndicatorInOctets_empty:
  "GetRoutingIndicatorInOctets ue_no_routing_indicator = Inr ([0xF0, 0xFF], ue_sample\<lparr>UeSecurity := (UeSecurity ue_sample)\<lparr>RoutingIndicator := ''0''\<rparr>\<rparr>)"
  by (simp add: GetRoutingIndicatorInOctets_def ue_no_routing_indicator_def Let_def
        pad_F.simps swap_pairs.simps fromHexChar_def)

text \<open>
  C7, as the code has it. The routing indicator \<open>"100"\<close> is encoded as the bytes
  \<open>{0x01, 0xF0}\<close>; an empty routing indicator is replaced by \<open>"0"\<close> and encoded as
  \<open>{0xF0, 0xFF}\<close>; a routing indicator of more than 4 bytes ends the process through
  \<open>log.Fatal\<close>.
\<close>

theorem GetRoutingIndicatorInOctets_cases:
  "(RoutingIndicator (UeSecurity ue) = ''100''
      \<longrightarrow> GetRoutingIndicatorInOctets ue = Inr ([0x01, 0xF0], ue))
   \<and> (RoutingIndicator (UeSecurity ue) = []
      \<longrightarrow> GetRoutingIndicatorInOctets ue
           = Inr ([0xF0, 0xFF], ue\<lparr>UeSecurity := (UeSecurity ue)\<lparr>RoutingIndicator := ''0''\<rparr>\<rparr>))
   \<and> (4 < length (RoutingIndicator (UeSecurity ue))
      \<longrightarrow> GetRoutingIndicatorInOctets ue
           = Inl (Fatal ''[UE][CONFIG] Routing indicator must be 4 digits maximum''))"
  by (auto simp add: GetRoutingIndicatorInOctets_def Let_def pad_F.simps swap_pairs.simps
        fromHexChar_def)

theorem GetRoutingIndicatorInOctets_cases_witness:
  "GetRoutingIndicatorInOctets ue_sample = Inr ([0x01, 0xF0], ue_sample)
   \<and> GetRoutingIndicatorInOctets ue_no_routing_indicator
       = Inr ([0xF0, 0xFF],
              ue_no_routing_indicator\<lparr>UeSecurity :=
                (UeSecurity ue_no_routing_indicator)\<lparr>RoutingIndicator := ''0''\<rparr>\<rparr>)
   \<and> GetRoutingIndicatorInOctets ue_long_routing_indicator
       = Inl (Fatal ''[UE][CONFIG] Routing indicator must be 4 digits maximum'')"
  using GetRoutingIndicatorInOctets_cases [of ue_sample]
        GetRoutingIndicatorInOctets_cases [of ue_no_routing_indicator]
        GetRoutingIndicatorInOctets_cases [of ue_long_routing_indicator]
  by (simp add: ue_sample_def ue_no_routing_indicator_def ue_long_routing_indicator_def)

text \<open>
  The claim C7 as stated gives \<open>{0x00, 0xF0}\<close> for the empty routing indicator; the
  function returns \<open>{0xF0, 0xFF}\<close>.
\<close>

theorem GetRoutingIndicatorInOctets_empty_counterexample:
  "GetRoutingIndicatorInOctets ue_no_routing_indicator
     = Inr ([0xF0, 0xFF], ue_sample\<lparr>UeSecurity := (UeSecurity ue_sample)\<lparr>RoutingIndicator := ''0''\<rparr>\<rparr>)
   \<and> [0xF0, 0xFF] \<noteq> [0x00, 0xF0 :: byte]"
  using GetRoutingIndicatorInOctets_empty by simp

section \<open>The AKA run\<close>

lemma length_copy_into: "length (copy_into buf out) = length buf"
  by (simp add: copy_into_def)

lemma call_F2345_Test_lengths:
  assumes "call_F2345_Test c OPC K RAND (b1, b2, b3, b4, b5) = (RES, CK, IK, AK, AKstar)"
  shows "length RES = length b1 \<and> length CK = length b2 \<and> length IK = length b3
         \<and> length AK = length b4 \<and> length AKstar = length b5"
  using assms by (auto simp: call_F2345_Test_def length_copy_into split: prod.splits)

lemma copy_into_again: "copy_into (copy_into buf out) out = copy_into buf out"
  by (cases "length out < length buf") (simp_all add: copy_into_def)

lemma call_F2345_Test_again:
  assumes "call_F2345_Test c OPC K RAND bufs = bufs'"
  shows "call_F2345_Test c OPC K RAND bufs' = bufs'"
  using assms by (auto simp: call_F2345_Test_def copy_into_again split: prod.splits)

lemma call_F1_Test_lengths:
  assumes "call_F1_Test c OPC K RAND sqn amf (b1, b2) = (mac_a, mac_s)"
  shows "length mac_a = length b1 \<and> length mac_s = length b2"
  using assms by (auto simp: call_F1_Test_def length_copy_into split: prod.splits)

lemma xor_loop_run:
  "i \<le> length src \<Longrightarrow> length src \<le> length key \<Longrightarrow> length src \<le> length dst \<Longrightarrow>
   xor_loop i dst src key =
     Inr (take i dst @ map (\<lambda>j. src ! j XOR key ! j) [i..<length src] @ drop (length src) dst)"
proof (induction i dst src key rule: xor_loop.induct)
  case (1 i dst src key)
  show ?case
  proof (cases "i < length src")
    case True
    let ?d = "dst[i := src ! i XOR key ! i]"
    have ih: "xor_loop (Suc i) ?d src key =
        Inr (take (Suc i) ?d @ map (\<lambda>j. src ! j XOR key ! j) [Suc i..<length src] @ drop (length src) ?d)"
      using "1.IH" [OF True] True "1.prems" by simp
    have t: "take (Suc i) ?d = take i dst @ [src ! i XOR key ! i]"
      using True "1.prems" by (simp add: take_Suc_conv_app_nth)
    have d: "drop (length src) ?d = drop (length src) dst"
      using True by simp
    have u: "[i..<length src] = i # [Suc i..<length src]"
      using True by (simp add: upt_conv_Cons)
    show ?thesis
      using True "1.prems" by (subst xor_loop.simps) (simp add: ih t d u)
  next
    case False
    with "1.prems" have "i = length src" by simp
    then show ?thesis by (subst xor_loop.simps) simp
  qed
qed

lemma xor_loop_6:
  assumes "length src = 6" "length key = 6"
  shows "xor_loop 0 (make_bytes 6) src key = Inr (map2 (XOR) src key)"
proof -
  have "xor_loop 0 (make_bytes 6) src key = Inr (map (\<lambda>j. src ! j XOR key ! j) [0..<length src])"
    using assms by (simp add: xor_loop_run make_bytes_def)
  moreover have "map (\<lambda>j. src ! j XOR key ! j) [0..<length src] = map2 (XOR) src key"
    using assms by (intro nth_equalityI) simp_all
  ultimately show ?thesis by simp
qed

lemma deriveAUTN_run:
  assumes "8 \<le> length autn" "length ak = 6"
  shows "deriveAUTN autn ak = Inr (map2 (XOR) (take 6 autn) ak, take 2 (drop 6 autn), drop 8 autn)"
  using assms by (simp add: deriveAUTN_def Let_def xor_loop_6)

lemma DerivateKamf_frame:
  "DerivateKamf c ue key snName SQN AK = Inr ue1 \<Longrightarrow>
     \<exists>kamf. ue1 = ue\<lparr>UeSecurity := (UeSecurity ue)\<lparr>Kamf := kamf\<rparr>\<rparr>"
  by (auto simp: DerivateKamf_def Let_def split: sum.splits option.splits)

lemma DerivateKamf_run:
  assumes "length SQN = 6" "length AK = 6" "supi_FindStringSubmatch (Supi (UeSecurity ue)) = Some imsi"
  shows "\<exists>ue1. DerivateKamf c ue key snName SQN AK = Inr ue1"
  using assms by (simp add: DerivateKamf_def Let_def xor_loop_6)

lemma DerivateAlgKey_frame:
  "\<exists>enc int. DerivateAlgKey c ue = ue\<lparr>UeSecurity := (UeSecurity ue)\<lparr>KnasEnc := enc, KnasInt := int\<rparr>\<rparr>"
  by (auto simp: DerivateAlgKey_def Let_def split: prod.splits)

lemma DeriveRESstarAndSetKey_frame:
  assumes "DeriveRESstarAndSetKey c ue authSubs RAND snName autn = Inr (r, ue')"
  shows "\<exists>sec. ue' = ue\<lparr>UeSecurity := sec\<rparr> \<and> AuthenticationSubs sec = AuthenticationSubs (UeSecurity ue)"
proof (cases "snd r = ''successful''")
  case True
  with assms obtain ue1 key sqnHn AK where
    k: "DerivateKamf c ue key snName sqnHn AK = Inr ue1" and a: "ue' = DerivateAlgKey c ue1"
    by (auto simp: DeriveRESstarAndSetKey_def Let_def
             split: option.splits sum.splits prod.splits if_splits)
  from DerivateKamf_frame [OF k] obtain kamf where
    "ue1 = ue\<lparr>UeSecurity := (UeSecurity ue)\<lparr>Kamf := kamf\<rparr>\<rparr>" by blast
  moreover from DerivateAlgKey_frame [of c ue1] a obtain enc int where
    "ue' = ue1\<lparr>UeSecurity := (UeSecurity ue1)\<lparr>KnasEnc := enc, KnasInt := int\<rparr>\<rparr>" by auto
  ultimately have "ue' = ue\<lparr>UeSecurity := (UeSecurity ue)\<lparr>Kamf := kamf, KnasEnc := enc, KnasInt := int\<rparr>\<rparr>"
    by simp
  then show ?thesis by (intro exI [of _ "(UeSecurity ue)\<lparr>Kamf := kamf, KnasEnc := enc, KnasInt := int\<rparr>"]) simp
next
  case False
  with assms have "ue' = ue"
    by (auto simp: DeriveRESstarAndSetKey_def Let_def
             split: option.splits sum.splits prod.splits if_splits)
  then show ?thesis by (intro exI [of _ "UeSecurity ue"]) simp
qed

lemma DeriveRESstarAndSetKey_success_run:
  assumes opc: "Opc authSubs = Some opc" "hex_DecodeString opc = Inr OPC"
    and k: "PermanentKey authSubs = Some k" "hex_DecodeString k = Inr K"
    and sqn: "hex_DecodeString (SequenceNumber authSubs) = Inr sqnUe"
    and amf: "hex_DecodeString (AuthenticationManagementField authSubs) = Inr AMF"
    and autn: "8 \<le> length autn"
    and bufs: "call_F2345_Test c OPC K RAND
                 (make_bytes 8, make_bytes 16, make_bytes 16, make_bytes 6, make_bytes 6)
               = (RES, CK, IK, AK, AKstar)"
    and hn: "sqnHn = map2 (XOR) (take 6 autn) AK"
    and le: "\<not> bytes_Compare sqnUe sqnHn > 0"
    and supi: "supi_FindStringSubmatch (Supi (UeSecurity ue)) = Some imsi"
    and kdf: "kdf = GetKDFValue c (CK @ IK) FC_FOR_RES_STAR_XRES_STAR_DERIVATION
                [bytes_of_string snName, KDFLen c (bytes_of_string snName),
                 RAND, KDFLen c RAND, RES, KDFLen c RES]"
  shows "\<exists>ue1. DeriveRESstarAndSetKey c ue authSubs RAND snName autn
           = Inr ((drop (length kdf div 2) kdf, ''successful''), ue1)"
proof -
  from call_F2345_Test_lengths [OF bufs] have l: "length AK = 6"
    by (simp add: make_bytes_def)
  have d: "deriveAUTN autn AK = Inr (sqnHn, take 2 (drop 6 autn), drop 8 autn)"
    using deriveAUTN_run [OF autn l] hn by simp
  have "length sqnHn = 6" using hn autn l by simp
  from DerivateKamf_run [OF this l supi]
  obtain ue1 where dk: "DerivateKamf c ue (CK @ IK) snName sqnHn AK = Inr ue1" by blast
  show ?thesis
    using opc k sqn amf bufs d le dk kdf
    by (simp add: DeriveRESstarAndSetKey_def Let_def split: prod.splits)
qed

lemma HandlerAuthenticationRequest_success:
  assumes run: "DeriveRESstarAndSetKey c ue (AuthenticationSubs (UeSecurity ue)) (GetRANDValue m)
                  (Snn (UeSecurity ue)) (GetAUTN m) = Inr ((param, ''successful''), ue1)"
    and sc: "scenarioChan ue = Chan_open q"
    and rx: "gnbRx ue = Chan_open g"
  shows "HandlerAuthenticationRequest c n ue m
           = Inr (ue1\<lparr>StateMM := MM5G_REGISTERED_INITIATED,
                      scenarioChan := Chan_open (q @ [\<lparr>StateChange = MM5G_REGISTERED_INITIATED\<rparr>]),
                      gnbRx := Chan_open (g @ [\<lparr>IsNas = True, Nas = AuthenticationResponse n param []\<rparr>])\<rparr>)"
proof -
  from DeriveRESstarAndSetKey_frame [OF run] obtain sec where "ue1 = ue\<lparr>UeSecurity := sec\<rparr>"
    by blast
  with sc rx have c1: "scenarioChan ue1 = Chan_open q" "gnbRx ue1 = Chan_open g" by simp_all
  show ?thesis
    using run c1
    by (simp add: HandlerAuthenticationRequest_def Let_def SetStateMM_REGISTERED_INITIATED_def
          set_and_publish_def SendToGnb_def)
qed

section \<open>Evaluating the sample inputs\<close>

lemma hex_Opc_sample: "hex_DecodeString ''8e27b6af0e692e750f32667a3b14605d'' = Inr OPC_sample"
  by (simp add: fromHexChar_def OPC_sample_def)

lemma hex_K_sample: "hex_DecodeString ''8baf473f2f8fd09487cccbd7097c6862'' = Inr K_sample"
  by (simp add: fromHexChar_def K_sample_def)

lemma hex_sqn_0: "hex_DecodeString ''000000000000'' = Inr [0, 0, 0, 0, 0, 0]"
  by (simp add: fromHexChar_def)

lemma hex_sqn_2: "hex_DecodeString ''000000000002'' = Inr [0, 0, 0, 0, 0, 2]"
  by (simp add: fromHexChar_def)

lemma hex_amf_8000: "hex_DecodeString ''8000'' = Inr [0x80, 0]"
  by (simp add: fromHexChar_def)

lemma call_F2345_Test_sample:
  "call_F2345_Test sample_crypto OPC_sample K_sample rand_sample
     (make_bytes 8, make_bytes 16, make_bytes 16, make_bytes 6, make_bytes 6)
   = (RES_sample, CK_sample, IK_sample, AK_sample, AKstar_sample)"
  by (simp add: call_F2345_Test_def sample_crypto_def OPC_sample_def K_sample_def rand_sample_def
        make_bytes_def copy_into_def RES_sample_def CK_sample_def IK_sample_def AK_sample_def
        AKstar_sample_def)

lemma sqnHn_sample: "map2 (XOR) (take 6 autn_sqn1) AK_sample = [0, 0, 0, 0, 0, 1]"
  by (simp add: autn_sqn1_def AK_sample_def)

lemma sqnHn_sample_bad_mac: "map2 (XOR) (take 6 autn_sqn1_bad_mac) AK_sample = [0, 0, 0, 0, 0, 1]"
  by (simp add: autn_sqn1_bad_mac_def AK_sample_def)

lemma call_F1_Test_sample_sqn1:
  "call_F1_Test sample_crypto OPC_sample K_sample rand_sample [0, 0, 0, 0, 0, 1] [0x80, 0]
     (make_bytes 8, make_bytes 8)
   = ([139, 175, 71, 63, 47, 142, 80, 148], [142, 39, 182, 175, 14, 104, 174, 117])"
  by (simp add: call_F1_Test_def sample_crypto_def OPC_sample_def K_sample_def
        make_bytes_def copy_into_def)

lemma call_F1_Test_sample_sqn2:
  "call_F1_Test sample_crypto OPC_sample K_sample rand_sample [0, 0, 0, 0, 0, 2] [0x00, 0x00]
     ([139, 175, 71, 63, 47, 142, 80, 148], [142, 39, 182, 175, 14, 104, 174, 117])
   = ([139, 175, 71, 63, 47, 141, 208, 148], [142, 39, 182, 175, 14, 107, 46, 117])"
  by (simp add: call_F1_Test_def sample_crypto_def OPC_sample_def K_sample_def copy_into_def)

lemma supi_ue_sample: "supi_FindStringSubmatch (Supi (UeSecurity ue_sample)) = Some ''99970000000001''"
  by (simp add: ue_sample_def supi_match_here_def is_digit_def)

lemma kdf_sample_eq:
  "GetKDFValue sample_crypto (CK_sample @ IK_sample) FC_FOR_RES_STAR_XRES_STAR_DERIVATION
     [bytes_of_string (Snn (UeSecurity ue_sample)),
      KDFLen sample_crypto (bytes_of_string (Snn (UeSecurity ue_sample))),
      rand_sample, KDFLen sample_crypto rand_sample,
      RES_sample, KDFLen sample_crypto RES_sample]
   = kdf_sample"
  by (simp add: sample_crypto_def CK_sample_def IK_sample_def rand_sample_def RES_sample_def
        FC_FOR_RES_STAR_XRES_STAR_DERIVATION_def ue_sample_def bytes_of_string_def
        kdf_sample_def upt_rec)

lemma AuthenticationSubs_ue_sample:
  "AuthenticationSubs (UeSecurity ue_sample)
     = \<lparr>PermanentKey = Some ''8baf473f2f8fd09487cccbd7097c6862'',
        Opc = Some ''8e27b6af0e692e750f32667a3b14605d'',
        MilenageOp = Some [],
        AuthenticationManagementField = ''8000'',
        SequenceNumber = ''000000000000'',
        AuthenticationMethod = ''5G_AKA''\<rparr>"
  by (simp add: ue_sample_def)

lemma deriveAUTN_sample:
  "deriveAUTN autn_sqn1 AK_sample
     = Inr ([0, 0, 0, 0, 0, 1], [0x80, 0], [139, 175, 71, 63, 47, 142, 80, 148])"
  using deriveAUTN_run [of autn_sqn1 AK_sample] sqnHn_sample
  by (simp add: autn_sqn1_def AK_sample_def)

lemma DerivateKamf_sample:
  "DerivateKamf sample_crypto ue_sample (CK_sample @ IK_sample) (Snn (UeSecurity ue_sample))
     [0, 0, 0, 0, 0, 1] AK_sample
   = Inr (ue_sample\<lparr>UeSecurity := (UeSecurity ue_sample)\<lparr>Kamf := kamf_sample\<rparr>\<rparr>)"
  apply (simp add: DerivateKamf_def Let_def xor_loop_6 AK_sample_def supi_ue_sample)
  apply (simp add: sample_crypto_def ue_sample_def CK_sample_def IK_sample_def
        bytes_of_string_def upt_rec kamf_sample_def
        FC_FOR_KAUSF_DERIVATION_def FC_FOR_KSEAF_DERIVATION_def FC_FOR_KAMF_DERIVATION_def)
  done

lemma DerivateAlgKey_sample:
  "DerivateAlgKey sample_crypto (ue_sample\<lparr>UeSecurity := (UeSecurity ue_sample)\<lparr>Kamf := kamf_sample\<rparr>\<rparr>)
   = ue_after_aka"
  by (simp add: DerivateAlgKey_def Let_def sample_crypto_def ue_after_aka_def kamf_sample_def)

lemma drop_kdf_sample: "drop (length kdf_sample div 2) kdf_sample = param_sample"
  by (simp add: kdf_sample_def param_sample_def)

lemma DeriveRESstarAndSetKey_sample:
  "DeriveRESstarAndSetKey sample_crypto ue_sample (AuthenticationSubs (UeSecurity ue_sample))
     rand_sample (Snn (UeSecurity ue_sample)) autn_sqn1
   = Inr ((param_sample, ''successful''), ue_after_aka)"
  by (simp del: hex_DecodeString.simps
        add: DeriveRESstarAndSetKey_def AuthenticationSubs_ue_sample hex_Opc_sample hex_K_sample
          hex_sqn_0 hex_amf_8000 call_F2345_Test_sample call_F1_Test_sample_sqn1 Let_def
          deriveAUTN_sample DerivateKamf_sample DerivateAlgKey_sample kdf_sample_eq drop_kdf_sample)

lemma deriveAUTN_sample_bad_mac:
  "deriveAUTN autn_sqn1_bad_mac AK_sample
     = Inr ([0, 0, 0, 0, 0, 1], [0x80, 0], [139, 175, 71, 63, 47, 142, 80, 107])"
  using deriveAUTN_run [of autn_sqn1_bad_mac AK_sample] sqnHn_sample_bad_mac
  by (simp add: autn_sqn1_bad_mac_def AK_sample_def)

lemma DeriveRESstarAndSetKey_sample_bad_mac:
  "DeriveRESstarAndSetKey sample_crypto ue_sample (AuthenticationSubs (UeSecurity ue_sample))
     rand_sample (Snn (UeSecurity ue_sample)) autn_sqn1_bad_mac
   = Inr ((param_sample, ''successful''), ue_after_aka)"
  by (simp del: hex_DecodeString.simps
        add: DeriveRESstarAndSetKey_def AuthenticationSubs_ue_sample hex_Opc_sample hex_K_sample
          hex_sqn_0 hex_amf_8000 call_F2345_Test_sample call_F1_Test_sample_sqn1 Let_def
          deriveAUTN_sample_bad_mac DerivateKamf_sample DerivateAlgKey_sample kdf_sample_eq
          drop_kdf_sample)

lemma AuthenticationSubs_ue_sqn2:
  "AuthenticationSubs (UeSecurity ue_sqn2)
     = \<lparr>PermanentKey = Some ''8baf473f2f8fd09487cccbd7097c6862'',
        Opc = Some ''8e27b6af0e692e750f32667a3b14605d'',
        MilenageOp = Some [],
        AuthenticationManagementField = ''8000'',
        SequenceNumber = ''000000000002'',
        AuthenticationMethod = ''5G_AKA''\<rparr>"
  by (simp add: ue_sqn2_def ue_sample_def)

section \<open>Authentication Request\<close>

text \<open>No input makes \<open>DeriveRESstarAndSetKey\<close> return the outcome \<open>"MAC failure"\<close>.\<close>

lemma DeriveRESstarAndSetKey_never_MAC_failure:
  "DeriveRESstarAndSetKey c ue authSubs RAND snName autn \<noteq> Inr ((param, ''MAC failure''), ue')"
  by (auto simp: DeriveRESstarAndSetKey_def Let_def
           split: option.splits sum.splits prod.splits if_splits)

text \<open>
  C1. The claim: when the MAC recomputed by \<open>F1\<close> over \<open>OPc, K, RAND, SQN_hn, AMF\<close>
  differs from the MAC carried in AUTN, \<open>DeriveRESstarAndSetKey\<close> returns the MAC failure
  outcome, and the handler sends an Authentication Failure and leaves the MM state as it
  is. The code: the test of the two MACs only logs a warning. With a subscription that
  decodes, a 16-byte AUTN whose MAC differs from the recomputed one, a sequence number
  that is not ahead of the network's, a SUPI the Kamf derivation accepts and live
  channels, the function returns the outcome \<open>"successful"\<close>, and the handler sends an
  Authentication Response and moves the UE to REGISTERED_INITIATED.
\<close>

theorem MAC_mismatch_is_ignored:
  assumes opc: "Opc (AuthenticationSubs (UeSecurity ue)) = Some opc"
               "hex_DecodeString opc = Inr OPC"
    and k: "PermanentKey (AuthenticationSubs (UeSecurity ue)) = Some k"
           "hex_DecodeString k = Inr K"
    and sqn: "hex_DecodeString (SequenceNumber (AuthenticationSubs (UeSecurity ue))) = Inr sqnUe"
    and amf: "hex_DecodeString (AuthenticationManagementField (AuthenticationSubs (UeSecurity ue)))
                = Inr AMF"
    and autn: "length (GetAUTN m) = 16"
    and bufs: "call_F2345_Test c OPC K (GetRANDValue m)
                 (make_bytes 8, make_bytes 16, make_bytes 16, make_bytes 6, make_bytes 6)
               = (RES, CK, IK, AK, AKstar)"
    and hn: "sqnHn = map2 (XOR) (take 6 (GetAUTN m)) AK"
    and mac: "call_F1_Test c OPC K (GetRANDValue m) sqnHn AMF (make_bytes 8, make_bytes 8)
                = (mac_a, mac_s)"
    and mismatch: "mac_a \<noteq> drop 8 (GetAUTN m)"
    and le: "\<not> bytes_Compare sqnUe sqnHn > 0"
    and supi: "supi_FindStringSubmatch (Supi (UeSecurity ue)) = Some imsi"
    and sc: "scenarioChan ue = Chan_open q"
    and rx: "gnbRx ue = Chan_open g"
  shows "\<exists>param ue1 ue2.
           DeriveRESstarAndSetKey c ue (AuthenticationSubs (UeSecurity ue)) (GetRANDValue m)
               (Snn (UeSecurity ue)) (GetAUTN m) = Inr ((param, ''successful''), ue1)
           \<and> HandlerAuthenticationRequest c n ue m = Inr ue2
           \<and> StateMM ue2 = MM5G_REGISTERED_INITIATED
           \<and> gnbRx ue2 = Chan_open (g @ [\<lparr>IsNas = True, Nas = AuthenticationResponse n param []\<rparr>])"
proof -
  from autn have a8: "8 \<le> length (GetAUTN m)" by simp
  from DeriveRESstarAndSetKey_success_run [OF opc k sqn amf a8 bufs hn le supi refl]
  obtain ue1 param where
    run: "DeriveRESstarAndSetKey c ue (AuthenticationSubs (UeSecurity ue)) (GetRANDValue m)
            (Snn (UeSecurity ue)) (GetAUTN m) = Inr ((param, ''successful''), ue1)"
    by blast
  from HandlerAuthenticationRequest_success [OF run sc rx, of n] run
  show ?thesis by simp
qed

theorem MAC_mismatch_is_ignored_witness:
  "[139, 175, 71, 63, 47, 142, 80, 148] \<noteq> drop 8 (GetAUTN request_sqn1_bad_mac)
   \<and> (\<exists>param ue1 ue2.
         DeriveRESstarAndSetKey sample_crypto ue_sample (AuthenticationSubs (UeSecurity ue_sample))
             (GetRANDValue request_sqn1_bad_mac) (Snn (UeSecurity ue_sample))
             (GetAUTN request_sqn1_bad_mac) = Inr ((param, ''successful''), ue1)
         \<and> HandlerAuthenticationRequest sample_crypto sample_nas ue_sample request_sqn1_bad_mac
             = Inr ue2
         \<and> StateMM ue_sample = MM5G_DEREGISTERED
         \<and> StateMM ue2 = MM5G_REGISTERED_INITIATED
         \<and> gnbRx ue2
             = Chan_open [\<lparr>IsNas = True, Nas = AuthenticationResponse sample_nas param []\<rparr>])"
proof -
  have h1: "Opc (AuthenticationSubs (UeSecurity ue_sample)) = Some ''8e27b6af0e692e750f32667a3b14605d''"
   and h2: "PermanentKey (AuthenticationSubs (UeSecurity ue_sample)) = Some ''8baf473f2f8fd09487cccbd7097c6862''"
   and h3: "hex_DecodeString (SequenceNumber (AuthenticationSubs (UeSecurity ue_sample))) = Inr [0, 0, 0, 0, 0, 0]"
   and h4: "hex_DecodeString (AuthenticationManagementField (AuthenticationSubs (UeSecurity ue_sample))) = Inr [0x80, 0]"
    by (simp_all del: hex_DecodeString.simps add: AuthenticationSubs_ue_sample hex_sqn_0 hex_amf_8000)
  have h5: "length (GetAUTN request_sqn1_bad_mac) = 16"
    by (simp add: request_sqn1_bad_mac_def autn_sqn1_bad_mac_def)
  have h6: "call_F2345_Test sample_crypto OPC_sample K_sample (GetRANDValue request_sqn1_bad_mac)
              (make_bytes 8, make_bytes 16, make_bytes 16, make_bytes 6, make_bytes 6)
            = (RES_sample, CK_sample, IK_sample, AK_sample, AKstar_sample)"
    using call_F2345_Test_sample by (simp add: request_sqn1_bad_mac_def)
  have h7: "[0, 0, 0, 0, 0, 1] = map2 (XOR) (take 6 (GetAUTN request_sqn1_bad_mac)) AK_sample"
    using sqnHn_sample_bad_mac by (simp add: request_sqn1_bad_mac_def)
  have h8: "call_F1_Test sample_crypto OPC_sample K_sample (GetRANDValue request_sqn1_bad_mac)
              [0, 0, 0, 0, 0, 1] [0x80, 0] (make_bytes 8, make_bytes 8)
            = ([139, 175, 71, 63, 47, 142, 80, 148], [142, 39, 182, 175, 14, 104, 174, 117])"
    using call_F1_Test_sample_sqn1 by (simp add: request_sqn1_bad_mac_def)
  have h9: "[139, 175, 71, 63, 47, 142, 80, 148] \<noteq> drop 8 (GetAUTN request_sqn1_bad_mac)"
    by (simp add: request_sqn1_bad_mac_def autn_sqn1_bad_mac_def)
  have h10: "\<not> bytes_Compare [0, 0, 0, 0, 0, 0] [0, 0, 0, 0, 0, 1] > 0" by simp
  have h11: "scenarioChan ue_sample = Chan_open []" and h12: "gnbRx ue_sample = Chan_open []"
    by (simp_all add: ue_sample_def)
  have h13: "StateMM ue_sample = MM5G_DEREGISTERED" by (simp add: ue_sample_def)
  note t = MAC_mismatch_is_ignored [OF h1 hex_Opc_sample h2 hex_K_sample h3 h4 h5 h6 h7 h8 h9 h10
              supi_ue_sample h11 h12, of sample_nas]
  show ?thesis using t h9 h13 by simp
qed

text \<open>
  C4. The claim: after a successful run the \<open>SequenceNumber\<close> stored in
  \<open>ue.UeSecurity.AuthenticationSubs\<close> is the \<open>SQN_hn\<close> recovered from AUTN. The code
  assigns the new value to its parameter \<open>authSubs\<close>, which is a copy of the struct: whenever
  \<open>DeriveRESstarAndSetKey\<close> returns, the subscription stored in the UE, its
  \<open>SequenceNumber\<close> included, is what it was before the call.
\<close>

theorem DeriveRESstarAndSetKey_keeps_subscription:
  assumes "DeriveRESstarAndSetKey c ue authSubs RAND snName autn = Inr (r, ue')"
  shows "AuthenticationSubs (UeSecurity ue') = AuthenticationSubs (UeSecurity ue)"
  using DeriveRESstarAndSetKey_frame [OF assms] by auto

theorem DeriveRESstarAndSetKey_keeps_subscription_witness:
  "DeriveRESstarAndSetKey sample_crypto ue_sample (AuthenticationSubs (UeSecurity ue_sample))
     rand_sample (Snn (UeSecurity ue_sample)) autn_sqn1
     = Inr ((param_sample, ''successful''), ue_after_aka)
   \<and> map2 (XOR) (take 6 autn_sqn1) AK_sample = [0, 0, 0, 0, 0, 1]
   \<and> sprintf_x_bytes [0, 0, 0, 0, 0, 1] = ''000000000001''
   \<and> SequenceNumber (AuthenticationSubs (UeSecurity ue_sample)) = ''000000000000''
   \<and> SequenceNumber (AuthenticationSubs (UeSecurity ue_after_aka)) = ''000000000000''"
  using DeriveRESstarAndSetKey_keeps_subscription [OF DeriveRESstarAndSetKey_sample]
        DeriveRESstarAndSetKey_sample sqnHn_sample
  by (simp add: AuthenticationSubs_ue_sample sprintf_x_bytes_def hexdigit_def char_of_def
        bit_iff_odd_drop_bit)

text \<open>
  C5, as the code has it. On a run with the outcome \<open>"successful"\<close> the parameter
  returned is the second half of \<open>KDF(CK || IK, FC = 0x6B, P0 = SNN, P1 = RAND, P2 = RES)\<close>,
  the bytes from index \<open>len / 2\<close> on: 16 bytes when the KDF gives 32. With live channels
  the handler then sends the Authentication Response carrying it and moves the UE to
  REGISTERED_INITIATED.
\<close>

theorem RES_star_is_second_half_of_KDF:
  assumes run: "DeriveRESstarAndSetKey c ue (AuthenticationSubs (UeSecurity ue)) (GetRANDValue m)
                  (Snn (UeSecurity ue)) (GetAUTN m) = Inr ((param, ''successful''), ue1)"
    and opc: "Opc (AuthenticationSubs (UeSecurity ue)) = Some opc"
             "hex_DecodeString opc = Inr OPC"
    and k: "PermanentKey (AuthenticationSubs (UeSecurity ue)) = Some k"
           "hex_DecodeString k = Inr K"
    and bufs: "call_F2345_Test c OPC K (GetRANDValue m)
                 (make_bytes 8, make_bytes 16, make_bytes 16, make_bytes 6, make_bytes 6)
               = (RES, CK, IK, AK, AKstar)"
    and kdf: "kdf = GetKDFValue c (CK @ IK) FC_FOR_RES_STAR_XRES_STAR_DERIVATION
                [bytes_of_string (Snn (UeSecurity ue)),
                 KDFLen c (bytes_of_string (Snn (UeSecurity ue))),
                 GetRANDValue m, KDFLen c (GetRANDValue m), RES, KDFLen c RES]"
    and sc: "scenarioChan ue = Chan_open q"
    and rx: "gnbRx ue = Chan_open g"
  shows "FC_FOR_RES_STAR_XRES_STAR_DERIVATION = 0x6B
         \<and> param = drop (length kdf div 2) kdf
         \<and> (length kdf = 32 \<longrightarrow> length param = 16)
         \<and> (\<exists>ue2. HandlerAuthenticationRequest c n ue m = Inr ue2
               \<and> StateMM ue2 = MM5G_REGISTERED_INITIATED
               \<and> gnbRx ue2
                   = Chan_open (g @ [\<lparr>IsNas = True, Nas = AuthenticationResponse n param []\<rparr>]))"
proof -
  have p: "param = drop (length kdf div 2) kdf"
    using run opc k bufs kdf
    by (auto simp: DeriveRESstarAndSetKey_def Let_def
             split: option.splits sum.splits prod.splits if_splits)
  then have "length kdf = 32 \<longrightarrow> length param = 16" by simp
  moreover note HandlerAuthenticationRequest_success [OF run sc rx, of n]
  ultimately show ?thesis using p by (simp add: FC_FOR_RES_STAR_XRES_STAR_DERIVATION_def)
qed

theorem RES_star_is_second_half_of_KDF_witness:
  "DeriveRESstarAndSetKey sample_crypto ue_sample (AuthenticationSubs (UeSecurity ue_sample))
     (GetRANDValue request_sqn1) (Snn (UeSecurity ue_sample)) (GetAUTN request_sqn1)
     = Inr ((param_sample, ''successful''), ue_after_aka)
   \<and> param_sample = drop (length kdf_sample div 2) kdf_sample
   \<and> length kdf_sample = 32 \<and> length param_sample = 16
   \<and> (\<exists>ue2. HandlerAuthenticationRequest sample_crypto sample_nas ue_sample request_sqn1 = Inr ue2
         \<and> StateMM ue2 = MM5G_REGISTERED_INITIATED
         \<and> gnbRx ue2
             = Chan_open [\<lparr>IsNas = True, Nas = AuthenticationResponse sample_nas param_sample []\<rparr>])"
proof -
  have run: "DeriveRESstarAndSetKey sample_crypto ue_sample (AuthenticationSubs (UeSecurity ue_sample))
     (GetRANDValue request_sqn1) (Snn (UeSecurity ue_sample)) (GetAUTN request_sqn1)
     = Inr ((param_sample, ''successful''), ue_after_aka)"
    using DeriveRESstarAndSetKey_sample by (simp add: request_sqn1_def)
  have h1: "Opc (AuthenticationSubs (UeSecurity ue_sample)) = Some ''8e27b6af0e692e750f32667a3b14605d''"
   and h2: "PermanentKey (AuthenticationSubs (UeSecurity ue_sample)) = Some ''8baf473f2f8fd09487cccbd7097c6862''"
    by (simp_all add: AuthenticationSubs_ue_sample)
  have h3: "call_F2345_Test sample_crypto OPC_sample K_sample (GetRANDValue request_sqn1)
              (make_bytes 8, make_bytes 16, make_bytes 16, make_bytes 6, make_bytes 6)
            = (RES_sample, CK_sample, IK_sample, AK_sample, AKstar_sample)"
    using call_F2345_Test_sample by (simp add: request_sqn1_def)
  have h4: "kdf_sample = GetKDFValue sample_crypto (CK_sample @ IK_sample)
               FC_FOR_RES_STAR_XRES_STAR_DERIVATION
               [bytes_of_string (Snn (UeSecurity ue_sample)),
                KDFLen sample_crypto (bytes_of_string (Snn (UeSecurity ue_sample))),
                GetRANDValue request_sqn1, KDFLen sample_crypto (GetRANDValue request_sqn1),
                RES_sample, KDFLen sample_crypto RES_sample]"
    using kdf_sample_eq by (simp add: request_sqn1_def)
  have h5: "scenarioChan ue_sample = Chan_open []" and h6: "gnbRx ue_sample = Chan_open []"
    by (simp_all add: ue_sample_def)
  have l: "length kdf_sample = 32" by (simp add: kdf_sample_def)
  note t = RES_star_is_second_half_of_KDF [OF run h1 hex_Opc_sample h2 hex_K_sample h3 h4 h5 h6,
              of sample_nas]
  show ?thesis using t run l by simp
qed

text \<open>
  The claim C5 as stated takes the parameter to be the last 8 bytes of the KDF output. On
  the sample run the KDF output has 32 bytes and the parameter returned is its last 16.
\<close>

theorem RES_star_last_8_bytes_counterexample:
  "DeriveRESstarAndSetKey sample_crypto ue_sample (AuthenticationSubs (UeSecurity ue_sample))
     rand_sample (Snn (UeSecurity ue_sample)) autn_sqn1
     = Inr ((param_sample, ''successful''), ue_after_aka)
   \<and> GetKDFValue sample_crypto (CK_sample @ IK_sample) FC_FOR_RES_STAR_XRES_STAR_DERIVATION
       [bytes_of_string (Snn (UeSecurity ue_sample)),
        KDFLen sample_crypto (bytes_of_string (Snn (UeSecurity ue_sample))),
        rand_sample, KDFLen sample_crypto rand_sample,
        RES_sample, KDFLen sample_crypto RES_sample]
     = kdf_sample
   \<and> length kdf_sample = 32
   \<and> length param_sample = 16
   \<and> param_sample \<noteq> drop (length kdf_sample - 8) kdf_sample"
  using DeriveRESstarAndSetKey_sample kdf_sample_eq
  by (simp add: kdf_sample_def param_sample_def)

text \<open>
  C6. Whenever the stored sequence number, of 6 bytes, is greater than \<open>SQN_hn\<close> in the
  byte-wise comparison, \<open>DeriveRESstarAndSetKey\<close> returns the outcome \<open>"SQN failure"\<close>
  with the parameter \<open>(SQN_ue XOR AK*) || MAC_S\<close>, 14 bytes long, where \<open>MAC_S\<close> is the
  \<open>mac_s\<close> buffer after \<open>F1_Test\<close> ran on \<open>SQN_ue\<close> with the AMF \<open>0x0000\<close>. The
  subscription is one that decodes, and AUTN has the 8 bytes \<open>deriveAUTN\<close> slices.
\<close>

theorem SQN_failure_returns_AUTS:
  assumes opc: "Opc authSubs = Some opc" "hex_DecodeString opc = Inr OPC"
    and k: "PermanentKey authSubs = Some k" "hex_DecodeString k = Inr K"
    and sqn: "hex_DecodeString (SequenceNumber authSubs) = Inr sqnUe"
    and amf: "hex_DecodeString (AuthenticationManagementField authSubs) = Inr AMF"
    and autn: "8 \<le> length autn"
    and six: "length sqnUe = 6"
    and bufs: "call_F2345_Test c OPC K RAND
                 (make_bytes 8, make_bytes 16, make_bytes 16, make_bytes 6, make_bytes 6)
               = (RES, CK, IK, AK, AKstar)"
    and hn: "sqnHn = map2 (XOR) (take 6 autn) AK"
    and gt: "bytes_Compare sqnUe sqnHn > 0"
    and mac1: "call_F1_Test c OPC K RAND sqnHn AMF (make_bytes 8, make_bytes 8) = (mac_a, mac_s)"
    and mac2: "call_F1_Test c OPC K RAND sqnUe [0x00, 0x00] (mac_a, mac_s) = (mac_a', MAC_S)"
  shows "DeriveRESstarAndSetKey c ue authSubs RAND snName autn
           = Inr ((map2 (XOR) sqnUe AKstar @ MAC_S, ''SQN failure''), ue)
         \<and> length (map2 (XOR) sqnUe AKstar @ MAC_S) = 14"
proof -
  from call_F2345_Test_lengths [OF bufs] have l: "length AK = 6" "length AKstar = 6"
    by (simp_all add: make_bytes_def)
  have d: "deriveAUTN autn AK = Inr (sqnHn, take 2 (drop 6 autn), drop 8 autn)"
    using deriveAUTN_run [OF autn l(1)] hn by simp
  have again: "call_F2345_Test c OPC K RAND (RES, CK, IK, AK, AKstar) = (RES, CK, IK, AK, AKstar)"
    using call_F2345_Test_again [OF bufs] .
  have x: "xor_loop 0 (make_bytes 6) sqnUe AKstar = Inr (map2 (XOR) sqnUe AKstar)"
    using six l(2) by (rule xor_loop_6)
  from call_F1_Test_lengths [OF mac1] have "length mac_s = 8" by (simp add: make_bytes_def)
  with call_F1_Test_lengths [OF mac2] have m: "length MAC_S = 8" by simp
  have "DeriveRESstarAndSetKey c ue authSubs RAND snName autn
           = Inr ((map2 (XOR) sqnUe AKstar @ MAC_S, ''SQN failure''), ue)"
    using opc k sqn amf bufs d gt mac1 mac2 again x
    by (simp add: DeriveRESstarAndSetKey_def Let_def)
  moreover have "length (map2 (XOR) sqnUe AKstar @ MAC_S) = 14"
    using six l(2) m by simp
  ultimately show ?thesis by simp
qed

theorem SQN_failure_returns_AUTS_witness:
  "bytes_Compare [0, 0, 0, 0, 0, 2] [0, 0, 0, 0, 0, 1] > 0
   \<and> DeriveRESstarAndSetKey sample_crypto ue_sqn2 (AuthenticationSubs (UeSecurity ue_sqn2))
       rand_sample (Snn (UeSecurity ue_sqn2)) autn_sqn1
     = Inr (([232, 80, 62, 54, 164, 208, 142, 39, 182, 175, 14, 107, 46, 117], ''SQN failure''),
            ue_sqn2)
   \<and> length [232, 80, 62, 54, 164, 208, 142, 39, 182, 175, 14, 107, 46, 117 :: byte] = 14"
proof -
  have h1: "Opc (AuthenticationSubs (UeSecurity ue_sqn2)) = Some ''8e27b6af0e692e750f32667a3b14605d''"
   and h2: "PermanentKey (AuthenticationSubs (UeSecurity ue_sqn2)) = Some ''8baf473f2f8fd09487cccbd7097c6862''"
   and h3: "hex_DecodeString (SequenceNumber (AuthenticationSubs (UeSecurity ue_sqn2))) = Inr [0, 0, 0, 0, 0, 2]"
   and h4: "hex_DecodeString (AuthenticationManagementField (AuthenticationSubs (UeSecurity ue_sqn2))) = Inr [0x80, 0]"
    by (simp_all del: hex_DecodeString.simps add: AuthenticationSubs_ue_sqn2 hex_sqn_2 hex_amf_8000)
  have h5: "8 \<le> length autn_sqn1" by (simp add: autn_sqn1_def)
  have h6: "length [0, 0, 0, 0, 0, 2 :: byte] = 6" by simp
  have h7: "bytes_Compare [0, 0, 0, 0, 0, 2] [0, 0, 0, 0, 0, 1] > 0" by simp
  note t = SQN_failure_returns_AUTS [OF h1 hex_Opc_sample h2 hex_K_sample h3 h4 h5 h6
              call_F2345_Test_sample sqnHn_sample [symmetric] h7
              call_F1_Test_sample_sqn1 call_F1_Test_sample_sqn2,
              of ue_sqn2 "Snn (UeSecurity ue_sqn2)"]
  show ?thesis using t h7 by (simp add: AKstar_sample_def)
qed

section \<open>Registration Accept\<close>

lemma HandlerRegistrationAccept_sample_returns:
  "\<exists>ue'. HandlerRegistrationAccept sample_nas ue_sample accept_sd_102030 = Inr ue'"
  by (simp add: HandlerRegistrationAccept_def Let_def SetStateMM_REGISTERED_def
        set_and_publish_def SendToGnb_def sample_nas_def ue_sample_def accept_sd_102030_def)

text \<open>
  C8. The claim: with \<open>Snssai.Sst = 0\<close> configured, after a Registration Accept the
  \<open>Sst\<close> is byte 1 of the Allowed NSSAI value and the \<open>Sd\<close> is the hexadecimal string of
  bytes 2 to 4, two digits per byte, for every value of these bytes. The code formats the
  three bytes with \<open>"0%x0%x0%x"\<close>: a literal \<open>0\<close> and then each byte in as many digits as it
  needs, which is one digit below \<open>0x10\<close> and two from there on.
\<close>

theorem HandlerRegistrationAccept_Snssai:
  assumes "Sst (Snssai ue) = 0"
    and "AllowedNSSAI m = Some nssai" and "5 \<le> length nssai"
    and "HandlerRegistrationAccept n ue m = Inr ue'"
  shows "Sst (Snssai ue') = ucast (nssai ! 1)
         \<and> Sd (Snssai ue') = ''0'' @ sprintf_x_uint8 (nssai ! 2) @ ''0'' @ sprintf_x_uint8 (nssai ! 3)
                              @ ''0'' @ sprintf_x_uint8 (nssai ! 4)"
  using assms
  by (auto simp: HandlerRegistrationAccept_def Let_def SetStateMM_REGISTERED_def
        set_and_publish_def SendToGnb_def sprintf_0x0x0x_def
        split: sum.splits if_splits chan.splits)

theorem HandlerRegistrationAccept_Snssai_witness:
  "Sst (Snssai ue_sample) = 0
   \<and> AllowedNSSAI accept_sd_102030 = Some [0x04, 0x01, 0x10, 0x20, 0x30]
   \<and> (\<exists>ue'. HandlerRegistrationAccept sample_nas ue_sample accept_sd_102030 = Inr ue'
         \<and> Sst (Snssai ue') = 1
         \<and> Sd (Snssai ue') = ''010020030'')"
proof -
  have h1: "Sst (Snssai ue_sample) = 0" by (simp add: ue_sample_def)
  have h2: "AllowedNSSAI accept_sd_102030 = Some [0x04, 0x01, 0x10, 0x20, 0x30]"
    by (simp add: accept_sd_102030_def)
  have h3: "5 \<le> length [0x04, 0x01, 0x10, 0x20, 0x30 :: byte]" by simp
  from HandlerRegistrationAccept_sample_returns obtain ue' where
    r: "HandlerRegistrationAccept sample_nas ue_sample accept_sd_102030 = Inr ue'" by blast
  from HandlerRegistrationAccept_Snssai [OF h1 h2 h3 r]
  have "Sst (Snssai ue') = 1 \<and> Sd (Snssai ue') = ''010020030''"
    by (simp add: sprintf_x_uint8_def hexdigit_def char_of_def bit_iff_odd_drop_bit)
  with r h1 h2 show ?thesis by blast
qed

end
